theory Spec2Isabelle
  imports Complex_Main "HOL-Library.Product_Lexorder"
begin

section \<open>JavaScript primitives used by the models\<close>

text \<open>
  JavaScript numbers are modelled exactly: the integers of the data model as \<open>int\<close>,
  the fractional multipliers, scores and averages as \<open>rat\<close>. Every product the code
  forms (an integer times 0.5, 0.75, 1.25, 1.5 or 0.25) is exact in binary floating
  point, so nothing is lost.

  \<open>Math.round\<close> rounds to the nearest integer, a tie going towards plus infinity.
\<close>

definition Math_round :: "rat \<Rightarrow> int" where
  "Math_round x = \<lfloor>x + 1 / 2\<rfloor>"

text \<open>
  \<open>a || b\<close> where \<open>a\<close> is a number or \<open>undefined\<close>: \<open>undefined\<close> and \<open>0\<close> are falsy,
  every other number is kept.
\<close>

definition or_int :: "int option \<Rightarrow> int \<Rightarrow> int" where
  "or_int a b = (case a of None \<Rightarrow> b | Some v \<Rightarrow> if v = 0 then b else v)"

definition or_rat :: "rat option \<Rightarrow> rat \<Rightarrow> rat" where
  "or_rat a b = (case a of None \<Rightarrow> b | Some v \<Rightarrow> if v = 0 then b else v)"

section \<open>TaskModel.calculateBasePoints (src/models/Task.ts)\<close>

text \<open>
  The two object literals are the association lists below; indexing one with a number
  that is not a key yields \<open>undefined\<close>.
\<close>

definition priorityMultiplier :: "int \<Rightarrow> int" where
  "priorityMultiplier priority =
     or_int (map_of [(1, 10), (2, 20), (3, 40), (4, 80), (5, 150)] priority) 40"

definition energyMultiplier :: "int \<Rightarrow> rat" where
  "energyMultiplier energyRequirement =
     or_rat (map_of [(1, 1 / 2), (2, 3 / 4), (3, 1), (4, 5 / 4), (5, 3 / 2)] energyRequirement) 1"

definition calculateBasePoints :: "int \<Rightarrow> int \<Rightarrow> int" where
  "calculateBasePoints priority energyRequirement =
     Math_round (of_int (priorityMultiplier priority) * energyMultiplier energyRequirement)"

subsection \<open>The points rule as the specification words it\<close>

definition spec_priorityMultiplier :: "int \<Rightarrow> int" where
  "spec_priorityMultiplier p =
     (if p = 1 then 10 else if p = 2 then 20 else if p = 3 then 40
      else if p = 4 then 80 else if p = 5 then 150 else 40)"

definition spec_energyMultiplier :: "int \<Rightarrow> rat" where
  "spec_energyMultiplier e =
     (if e = 1 then 1 / 2 else if e = 2 then 3 / 4 else if e = 3 then 1
      else if e = 4 then 5 / 4 else if e = 5 then 3 / 2 else 1)"

text \<open>Round half up: a fractional part below one half is dropped, otherwise the next
  integer is taken.\<close>

definition round_half_up :: "rat \<Rightarrow> int" where
  "round_half_up x = (if frac x < 1 / 2 then \<lfloor>x\<rfloor> else \<lfloor>x\<rfloor> + 1)"

section \<open>The store\<close>

text \<open>
  The relational store is passed explicitly. A table is the list of its rows; an instant
  (\<open>TIMESTAMP\<close>, JavaScript \<open>Date\<close>) is a number of microseconds. Of the schema the
  model keeps the primary key of \<open>tasks\<close> and \<open>energy_logs\<close>, the \<open>CHECK\<close>
  constraints on \<open>energy_requirement\<close>, \<open>priority\<close> and \<open>energy_level\<close>, and the
  range of the \<open>INTEGER\<close> columns of \<open>tasks\<close>; the widths of the character columns
  and the foreign keys are left to the store. Columns typed \<open>number\<close> in the
  TypeScript interfaces are not nullable in the model.

  The column \<open>id\<close> is \<open>task_id\<close>, \<open>proj_id\<close> and \<open>log_id\<close> in the three records, a
  tag's fields carry the prefix \<open>tag_\<close>, and the columns \<open>user_id\<close> and \<open>notes\<close> of an
  energy log are \<open>log_user_id\<close> and \<open>log_notes\<close>: a field name belongs to one record.
\<close>

record Tag =
  tag_id :: string
  tag_label :: string
  tag_color :: string

record Task =
  task_id :: string
  user_id :: string
  project_id :: "string option"
  title :: string
  description :: "string option"
  energy_requirement :: int
  priority :: int
  status :: string
  due_date :: "int option"
  completed_at :: "int option"
  estimated_duration :: "int option"
  actual_duration :: "int option"
  points :: int
  tags :: "Tag list"
  created_at :: int
  updated_at :: int

text \<open>Of a project the queries read the three columns below.\<close>

record Project =
  proj_id :: string
  proj_name :: string
  proj_color :: string

record EnergyLog =
  log_id :: string
  log_user_id :: string
  energy_level :: int
  mood_tags :: "string list option"
  log_notes :: "string option"
  logged_at :: int
  predicted_at :: "int option"

record Db =
  tasks :: "Task list"
  projects :: "Project list"
  energy_logs :: "EnergyLog list"

text \<open>
  What an operation can throw: the model's own \<open>Error('Task not found')\<close>, pg-promise's
  rejection of \<open>db.one\<close> when the statement returns no row or several, and a statement
  that PostgreSQL refuses (a syntax error, a violated constraint).
\<close>

datatype error = TaskNotFound | QueryResultError | DatabaseError

definition db_one :: "'a list \<Rightarrow> error + 'a" where
  "db_one rows = (case rows of [r] \<Rightarrow> Inr r | _ \<Rightarrow> Inl QueryResultError)"

definition task_checks :: "Task \<Rightarrow> bool" where
  "task_checks t \<longleftrightarrow>
     1 \<le> energy_requirement t \<and> energy_requirement t \<le> 5 \<and> 1 \<le> priority t \<and> priority t \<le> 5"

text \<open>
  An \<open>INTEGER\<close> column holds 32 bits; the store refuses a value beyond them
  ("integer out of range"). The \<open>INTEGER\<close> columns of \<open>tasks\<close> that the \<open>CHECK\<close>s do
  not bound are \<open>points\<close>, \<open>estimated_duration\<close> and \<open>actual_duration\<close>.
\<close>

definition fits_integer :: "int \<Rightarrow> bool" where
  "fits_integer v \<longleftrightarrow> - 2147483648 \<le> v \<and> v \<le> 2147483647"

definition task_integers :: "Task \<Rightarrow> bool" where
  "task_integers t \<longleftrightarrow>
     fits_integer (points t)
     \<and> (case estimated_duration t of None \<Rightarrow> True | Some v \<Rightarrow> fits_integer v)
     \<and> (case actual_duration t of None \<Rightarrow> True | Some v \<Rightarrow> fits_integer v)"

text \<open>The store accepts a row of \<open>tasks\<close>, as far as the model follows the schema.\<close>

definition row_accepted :: "Task \<Rightarrow> bool" where
  "row_accepted t \<longleftrightarrow> task_checks t \<and> task_integers t"

text \<open>
  \<open>UPDATE tasks SET ... WHERE ... RETURNING *\<close>: every row the condition selects is
  replaced by its image, the trigger \<open>update_tasks_updated_at\<close> stamps it, and the new
  rows are returned. A new row that the store does not accept (a violated \<open>CHECK\<close>, an
  integer out of range) aborts the statement, which then changes nothing.
\<close>

definition update_tasks ::
  "Db \<Rightarrow> int \<Rightarrow> (Task \<Rightarrow> bool) \<Rightarrow> (Task \<Rightarrow> Task) \<Rightarrow> (Db \<times> Task list) option" where
  "update_tasks db now cond f =
     (let new_row = (\<lambda>t. (f t)\<lparr>updated_at := now\<rparr>);
          returning = map new_row (filter cond (tasks db))
      in if list_all row_accepted returning
         then Some (db\<lparr>tasks := map (\<lambda>t. if cond t then new_row t else t) (tasks db)\<rparr>,
                    returning)
         else None)"

text \<open>\<open>a || null\<close> for a string (the empty string is falsy) and for a number.\<close>

definition or_null_string :: "string option \<Rightarrow> string option" where
  "or_null_string a = (case a of None \<Rightarrow> None | Some v \<Rightarrow> if v = [] then None else Some v)"

definition or_null_int :: "int option \<Rightarrow> int option" where
  "or_null_int a = (case a of None \<Rightarrow> None | Some v \<Rightarrow> if v = 0 then None else Some v)"

section \<open>TaskModel (src/models/Task.ts)\<close>

record CreateTaskData =
  d_user_id :: string
  d_project_id :: "string option"
  d_title :: string
  d_description :: "string option"
  d_energy_requirement :: "int option"
  d_priority :: "int option"
  d_due_date :: "int option"
  d_estimated_duration :: "int option"
  d_tags :: "Tag list option"

text \<open>
  \<open>create\<close>: the identifier the store generates (\<open>uuid_generate_v4()\<close>) and the time
  of the call are parameters. The inserted row is returned; the store refuses a row it
  does not accept.
\<close>

definition create :: "Db \<Rightarrow> int \<Rightarrow> string \<Rightarrow> CreateTaskData \<Rightarrow> Db \<times> (error + Task)" where
  "create db now new_id data =
     (let basePoints = calculateBasePoints (or_int (d_priority data) 3)
                         (or_int (d_energy_requirement data) 3);
          row = \<lparr>task_id = new_id,
                 user_id = d_user_id data,
                 project_id = or_null_string (d_project_id data),
                 title = d_title data,
                 description = or_null_string (d_description data),
                 energy_requirement = or_int (d_energy_requirement data) 3,
                 priority = or_int (d_priority data) 3,
                 status = ''pending'',
                 due_date = d_due_date data,
                 completed_at = None,
                 estimated_duration = or_null_int (d_estimated_duration data),
                 actual_duration = None,
                 points = basePoints,
                 tags = (case d_tags data of None \<Rightarrow> [] | Some ts \<Rightarrow> ts),
                 created_at = now,
                 updated_at = now\<rparr>
      in if new_id \<in> task_id ` set (tasks db) \<or> \<not> row_accepted row
         then (db, Inl DatabaseError)
         else (db\<lparr>tasks := tasks db @ [row]\<rparr>, Inr row))"

definition findById :: "Db \<Rightarrow> string \<Rightarrow> string \<Rightarrow> Task option" where
  "findById db i userId =
     (case db_one (filter (\<lambda>t. task_id t = i \<and> user_id t = userId) (tasks db)) of
        Inr t \<Rightarrow> Some t
      | Inl _ \<Rightarrow> None)"

text \<open>\<open>Partial<CreateTaskData>\<close>: every field may be \<open>undefined\<close>.\<close>

record PartialTaskData =
  u_user_id :: "string option"
  u_project_id :: "string option"
  u_title :: "string option"
  u_description :: "string option"
  u_energy_requirement :: "int option"
  u_priority :: "int option"
  u_due_date :: "int option"
  u_estimated_duration :: "int option"
  u_tags :: "Tag list option"

text \<open>
  \<open>update\<close> collects one assignment per supplied field, in the order of the source; the
  pair of arrays \<open>fields\<close>/\<open>values\<close> is the list of assignments below.
\<close>

datatype assignment =
    SetTitle string
  | SetDescription string
  | SetEnergyRequirement int
  | SetPriority int
  | SetPoints int
  | SetDueDate int
  | SetEstimatedDuration int
  | SetProjectId string
  | SetTags "Tag list"

fun assign :: "assignment \<Rightarrow> Task \<Rightarrow> Task" where
  "assign (SetTitle v) t = t\<lparr>title := v\<rparr>"
| "assign (SetDescription v) t = t\<lparr>description := Some v\<rparr>"
| "assign (SetEnergyRequirement v) t = t\<lparr>energy_requirement := v\<rparr>"
| "assign (SetPriority v) t = t\<lparr>priority := v\<rparr>"
| "assign (SetPoints v) t = t\<lparr>points := v\<rparr>"
| "assign (SetDueDate v) t = t\<lparr>due_date := Some v\<rparr>"
| "assign (SetEstimatedDuration v) t = t\<lparr>estimated_duration := Some v\<rparr>"
| "assign (SetProjectId v) t = t\<lparr>project_id := Some v\<rparr>"
| "assign (SetTags v) t = t\<lparr>tags := v\<rparr>"

definition push_if :: "'a option \<Rightarrow> ('a \<Rightarrow> assignment list) \<Rightarrow> assignment list \<Rightarrow> assignment list" where
  "push_if field clause fs = (case field of None \<Rightarrow> fs | Some v \<Rightarrow> fs @ clause v)"

definition update_fields :: "PartialTaskData \<Rightarrow> assignment list" where
  "update_fields data =
     (push_if (u_tags data) (\<lambda>v. [SetTags v])
     (push_if (u_project_id data) (\<lambda>v. [SetProjectId v])
     (push_if (u_estimated_duration data) (\<lambda>v. [SetEstimatedDuration v])
     (push_if (u_due_date data) (\<lambda>v. [SetDueDate v])
     (push_if (u_priority data)
        (\<lambda>v. [SetPriority v,
              SetPoints (calculateBasePoints v (or_int (u_energy_requirement data) 3))])
     (push_if (u_energy_requirement data) (\<lambda>v. [SetEnergyRequirement v])
     (push_if (u_description data) (\<lambda>v. [SetDescription v])
     (push_if (u_title data) (\<lambda>v. [SetTitle v]) []))))))))"

text \<open>
  With no field supplied the statement reads \<open>UPDATE tasks SET WHERE ...\<close>, which
  PostgreSQL rejects. \<open>db.one\<close> rejects when no row matched.
\<close>

definition update :: "Db \<Rightarrow> int \<Rightarrow> string \<Rightarrow> string \<Rightarrow> PartialTaskData \<Rightarrow> Db \<times> (error + Task)" where
  "update db now i userId data =
     (let fs = update_fields data
      in if fs = [] then (db, Inl DatabaseError)
         else (case update_tasks db now (\<lambda>t. task_id t = i \<and> user_id t = userId)
                      (\<lambda>t. fold assign fs t) of
                 None \<Rightarrow> (db, Inl DatabaseError)
               | Some (db', returning) \<Rightarrow> (db', db_one returning)))"

record CompleteResult =
  res_task :: Task
  res_points_earned :: int
  res_bonus_points :: int

text \<open>
  \<open>complete\<close> (here \<open>complete_task\<close>): \<open>currentEnergyLevel && ...\<close> is false for
  \<open>undefined\<close> and for \<open>0\<close>; \<open>actualDuration || null\<close> stores no duration for
  \<open>undefined\<close> and for \<open>0\<close>. The store refuses a duration beyond the \<open>INTEGER\<close> range
  of \<open>actual_duration\<close>, and \<open>complete\<close> lets that error through.
\<close>

definition complete_task ::
  "Db \<Rightarrow> int \<Rightarrow> string \<Rightarrow> string \<Rightarrow> int option \<Rightarrow> int option \<Rightarrow> Db \<times> (error + CompleteResult)" where
  "complete_task db now i userId actualDuration currentEnergyLevel =
     (case findById db i userId of
        None \<Rightarrow> (db, Inl TaskNotFound)
      | Some task \<Rightarrow>
          (let bonusPoints =
                 (if currentEnergyLevel \<noteq> None \<and> currentEnergyLevel \<noteq> Some 0
                     \<and> Some (energy_requirement task) = currentEnergyLevel
                  then Math_round (of_int (points task) * (1 / 4)) else 0);
               totalPoints = points task + bonusPoints
           in (case update_tasks db now (\<lambda>t. task_id t = i \<and> user_id t = userId)
                      (\<lambda>t. t\<lparr>status := ''completed'', completed_at := Some now,
                               actual_duration := or_null_int actualDuration\<rparr>) of
                 None \<Rightarrow> (db, Inl DatabaseError)
               | Some (db', returning) \<Rightarrow>
                   (db', (case db_one returning of
                            Inl e \<Rightarrow> Inl e
                          | Inr completedTask \<Rightarrow>
                              Inr \<lparr>res_task = completedTask,
                                   res_points_earned = totalPoints,
                                   res_bonus_points = bonusPoints\<rparr>)))))"

text \<open>\<open>delete\<close> reports whether a row was removed.\<close>

definition delete :: "Db \<Rightarrow> string \<Rightarrow> string \<Rightarrow> Db \<times> bool" where
  "delete db i userId =
     (db\<lparr>tasks := filter (\<lambda>t. \<not> (task_id t = i \<and> user_id t = userId)) (tasks db)\<rparr>,
      filter (\<lambda>t. task_id t = i \<and> user_id t = userId) (tasks db) \<noteq> [])"

subsection \<open>getTasksWithEnergyMatch\<close>

record Filters =
  f_status :: "string option"
  f_project_id :: "string option"
  f_priority :: "int option"

text \<open>A row of the query: the task's columns and the three computed ones.\<close>

record MatchRow = Task +
  energy_match :: bool
  energy_match_score :: rat
  project :: "Project option"

record TaskWithEnergyMatch = MatchRow +
  bonus_points :: int

text \<open>\<open>FROM tasks t LEFT JOIN projects p ON t.project_id = p.id\<close>\<close>

definition left_join_projects :: "Db \<Rightarrow> (Task \<times> Project option) list" where
  "left_join_projects db =
     concat (map (\<lambda>t. case filter (\<lambda>p. project_id t = Some (proj_id p)) (projects db) of
                          [] \<Rightarrow> [(t, None)]
                        | ps \<Rightarrow> map (\<lambda>p. (t, Some p)) ps)
                 (tasks db))"

text \<open>The \<open>SELECT\<close> list, \<open>$2\<close> being the queried energy level.\<close>

definition select_match :: "int \<Rightarrow> Task \<times> Project option \<Rightarrow> MatchRow" where
  "select_match level tp =
     (case tp of (t, p) \<Rightarrow>
        Task.extend t
          (MatchRow.fields
             (if energy_requirement t = level then True else False)
             (if energy_requirement t = level then 1
              else if \<bar>energy_requirement t - level\<bar> = 1 then 1 / 2
              else 0)
             p))"

text \<open>
  \<open>ORDER BY energy_match_score DESC, t.priority DESC, t.due_date ASC NULLS LAST\<close>:
  the rows are sorted on the key below, compared lexicographically. SQL leaves the
  order of rows with equal keys to the store; the model keeps them in table order.
\<close>

definition order_key :: "MatchRow \<Rightarrow> rat \<times> int \<times> nat \<times> int" where
  "order_key r =
     (- energy_match_score r, - priority r,
      (case due_date r of Some d \<Rightarrow> (0, d) | None \<Rightarrow> (1, 0)))"

text \<open>
  \<open>if (filters?.project_id)\<close> and \<open>if (filters?.priority)\<close> hold when the filter object is
  given and the field is neither \<open>undefined\<close> nor falsy (the empty string, zero).
  \<open>filters.status\<close> is never read.
\<close>

definition energy_match_query :: "Db \<Rightarrow> string \<Rightarrow> int \<Rightarrow> Filters option \<Rightarrow> MatchRow list" where
  "energy_match_query db userId currentEnergyLevel filters =
     (let rows0 = filter (\<lambda>(t, p). user_id t = userId \<and> status t = ''pending'')
                    (left_join_projects db);
          rows1 = (case or_null_string (case filters of None \<Rightarrow> None | Some f \<Rightarrow> f_project_id f) of
                     Some pid \<Rightarrow> filter (\<lambda>(t, p). project_id t = Some pid) rows0
                   | None \<Rightarrow> rows0);
          rows2 = (case or_null_int (case filters of None \<Rightarrow> None | Some f \<Rightarrow> f_priority f) of
                     Some pr \<Rightarrow> filter (\<lambda>(t, p). priority t = pr) rows1
                   | None \<Rightarrow> rows1)
      in sort_key order_key (map (select_match currentEnergyLevel) rows2))"

text \<open>The callback of \<open>tasks.map\<close>: the row with \<open>bonus_points\<close> added.\<close>

definition with_bonus :: "MatchRow \<Rightarrow> TaskWithEnergyMatch" where
  "with_bonus task =
     MatchRow.extend task
       (TaskWithEnergyMatch.fields
          (if energy_match task then Math_round (of_int (points task) * (1 / 4)) else 0))"

definition getTasksWithEnergyMatch ::
  "Db \<Rightarrow> string \<Rightarrow> int \<Rightarrow> Filters option \<Rightarrow> TaskWithEnergyMatch list" where
  "getTasksWithEnergyMatch db userId currentEnergyLevel filters =
     map with_bonus (energy_match_query db userId currentEnergyLevel filters)"

section \<open>EnergyModel (src/models/Energy.ts)\<close>

record CreateEnergyLog =
  c_user_id :: string
  c_energy_level :: int
  c_mood_tags :: "string list option"
  c_notes :: "string option"

definition log_checks :: "EnergyLog \<Rightarrow> bool" where
  "log_checks l \<longleftrightarrow> 1 \<le> energy_level l \<and> energy_level l \<le> 5"

text \<open>
  \<open>logEnergy\<close>: the store supplies the identifier and \<open>logged_at\<close> (\<open>DEFAULT NOW()\<close>).
  An array is truthy even when empty, so \<open>data.mood_tags || null\<close> keeps it.
\<close>

definition logEnergy :: "Db \<Rightarrow> int \<Rightarrow> string \<Rightarrow> CreateEnergyLog \<Rightarrow> Db \<times> (error + EnergyLog)" where
  "logEnergy db now new_id data =
     (let row = \<lparr>log_id = new_id,
                 log_user_id = c_user_id data,
                 energy_level = c_energy_level data,
                 mood_tags = c_mood_tags data,
                 log_notes = or_null_string (c_notes data),
                 logged_at = now,
                 predicted_at = None\<rparr>
      in if new_id \<in> log_id ` set (energy_logs db) \<or> \<not> log_checks row
         then (db, Inl DatabaseError)
         else (db\<lparr>energy_logs := energy_logs db @ [row]\<rparr>, Inr row))"

text \<open>
  \<open>getLatestEnergy\<close>: \<open>ORDER BY logged_at DESC LIMIT 1\<close>; \<open>db.one\<close> rejects when the user
  has no log, which the \<open>catch\<close> turns into \<open>null\<close>.
\<close>

definition getLatestEnergy :: "Db \<Rightarrow> string \<Rightarrow> EnergyLog option" where
  "getLatestEnergy db userId =
     (case db_one (take 1 (sort_key (\<lambda>l. - logged_at l)
                     (filter (\<lambda>l. log_user_id l = userId) (energy_logs db)))) of
        Inr l \<Rightarrow> Some l
      | Inl _ \<Rightarrow> None)"

subsection \<open>calculateEnergyPattern\<close>

definition usec_per_hour :: int where
  "usec_per_hour = 3600000000"

definition usec_per_day :: int where
  "usec_per_day = 24 * usec_per_hour"

text \<open>\<open>EXTRACT(HOUR FROM logged_at)\<close>\<close>

definition extract_hour :: "int \<Rightarrow> int" where
  "extract_hour ts = (ts div usec_per_hour) mod 24"

text \<open>\<open>WHERE user_id = $1 AND logged_at > NOW() - INTERVAL '30 days'\<close>\<close>

definition window_logs :: "Db \<Rightarrow> int \<Rightarrow> string \<Rightarrow> EnergyLog list" where
  "window_logs db now userId =
     filter (\<lambda>l. log_user_id l = userId \<and> logged_at l > now - 30 * usec_per_day)
       (energy_logs db)"

text \<open>\<open>AVG\<close> over a group, which is never empty.\<close>

definition AVG :: "int list \<Rightarrow> rat" where
  "AVG xs = of_int (sum_list xs) / of_nat (length xs)"

record HourRow =
  hour :: int
  avg_energy :: rat
  count :: nat

text \<open>
  \<open>GROUP BY EXTRACT(HOUR FROM logged_at)\<close>: one group per hour of the day that has a
  log. SQL leaves the order of the groups to the store; the model lists them by hour.
\<close>

definition group_by_hour :: "EnergyLog list \<Rightarrow> (int \<times> EnergyLog list) list" where
  "group_by_hour logs =
     filter (\<lambda>(h, g). g \<noteq> [])
       (map (\<lambda>h. (h, filter (\<lambda>l. extract_hour (logged_at l) = h) logs)) [0..23])"

definition hour_row :: "int \<times> EnergyLog list \<Rightarrow> HourRow" where
  "hour_row hg =
     (case hg of (h, g) \<Rightarrow>
        \<lparr>hour = h, avg_energy = AVG (map energy_level g), count = length g\<rparr>)"

text \<open>
  The second statement, \<open>ORDER BY avg_energy DESC\<close>. The clause says nothing of hours
  with equal averages, which the store may return in any order; that the model keeps
  them in the order of the groups is a choice of the model, not of the code.
\<close>

definition hourly_energy :: "Db \<Rightarrow> int \<Rightarrow> string \<Rightarrow> HourRow list" where
  "hourly_energy db now userId =
     sort_key (\<lambda>r. - avg_energy r) (map hour_row (group_by_hour (window_logs db now userId)))"

text \<open>\<open>xs.slice(-n)\<close>: the last \<open>n\<close> elements, all of them when there are fewer.\<close>

definition slice_from_end :: "nat \<Rightarrow> 'a list \<Rightarrow> 'a list" where
  "slice_from_end n xs = drop (length xs - n) xs"

record Patterns =
  total_logs :: nat
  hourly_data :: "HourRow list"

record EnergyPattern =
  pattern_user_id :: string
  average_energy :: rat
  peak_hours :: "int list"
  low_hours :: "int list"
  patterns :: "Patterns option"

text \<open>
  The two statements are sent one after the other and each reads \<open>NOW()\<close> itself:
  \<open>now1\<close> is the time of the first, \<open>now2\<close> of the second. The empty object
  \<open>patterns: {}\<close> of the default is \<open>None\<close>.
\<close>

definition calculateEnergyPattern :: "Db \<Rightarrow> int \<Rightarrow> int \<Rightarrow> string \<Rightarrow> EnergyPattern" where
  "calculateEnergyPattern db now1 now2 userId =
     (let logs = window_logs db now1 userId
      in if logs = []
         then \<lparr>pattern_user_id = userId, average_energy = 3, peak_hours = [], low_hours = [],
               patterns = None\<rparr>
         else
           (let hourlyEnergy = hourly_energy db now2 userId;
                peakHours = take 3 (map hour (filter (\<lambda>h. avg_energy h \<ge> 4) hourlyEnergy));
                lowHours = slice_from_end 3
                             (map hour (filter (\<lambda>h. avg_energy h \<le> 2) hourlyEnergy))
            in \<lparr>pattern_user_id = userId,
                 average_energy = AVG (map energy_level logs),
                 peak_hours = peakHours,
                 low_hours = lowHours,
                 patterns = Some \<lparr>total_logs = length logs, hourly_data = hourlyEnergy\<rparr>\<rparr>))"

subsection \<open>getEnergyInsights\<close>

text \<open>A number array joined with a separator: each number in decimal.\<close>

fun digits :: "nat \<Rightarrow> string" where
  "digits n = (if n < 10 then [''0123456789'' ! n]
               else digits (n div 10) @ [''0123456789'' ! (n mod 10)])"

declare digits.simps [simp del]

definition Number_toString :: "int \<Rightarrow> string" where
  "Number_toString i = (if i < 0 then CHR ''-'' # digits (nat (- i)) else digits (nat i))"

fun join :: "string \<Rightarrow> string list \<Rightarrow> string" where
  "join sep [] = []"
| "join sep [x] = x"
| "join sep (x # y # ys) = x @ sep @ join sep (y # ys)"

record Insight =
  insight_type :: string
  message :: string
  confidence :: rat

record Insights =
  insights_pattern :: EnergyPattern
  insights_latest :: "EnergyLog option"
  insights :: "Insight list"

text \<open>
  \<open>currentHour\<close> is \<open>new Date().getHours()\<close>. The array \<open>insights\<close> grows by \<open>push\<close>:
  \<open>insights1\<close>, \<open>insights2\<close>, \<open>insights3\<close> are its value after each of the three rules.
\<close>

definition getEnergyInsights :: "Db \<Rightarrow> int \<Rightarrow> int \<Rightarrow> int \<Rightarrow> string \<Rightarrow> Insights" where
  "getEnergyInsights db now1 now2 currentHour userId =
     (let pattern = calculateEnergyPattern db now1 now2 userId;
          latest = getLatestEnergy db userId;
          insights1 =
            (if length (peak_hours pattern) > 0
             then [] @ [\<lparr>insight_type = ''peak_hours'',
                          message = ''Your peak energy hours are: ''
                            @ join '', '' (map Number_toString (peak_hours pattern)) @ '':00'',
                          confidence = 85 / 100\<rparr>]
             else []);
          insights2 =
            (case latest of
               None \<Rightarrow> insights1
             | Some l \<Rightarrow>
                 (let isPeakTime = currentHour \<in> set (peak_hours pattern)
                  in if isPeakTime \<and> energy_level l < 4
                     then insights1 @ [\<lparr>insight_type = ''energy_mismatch'',
                            message = ''This is usually your peak time, but your energy is lower than expected'',
                            confidence = 75 / 100\<rparr>]
                     else insights1));
          insights3 =
            (if average_energy pattern < 3
             then insights2 @ [\<lparr>insight_type = ''low_average'',
                    message = ''Your average energy has been low recently. Consider adjusting your schedule or taking breaks.'',
                    confidence = 8 / 10\<rparr>]
             else insights2)
      in \<lparr>insights_pattern = pattern, insights_latest = latest, insights = insights3\<rparr>)"

section \<open>EnergyController.logEnergy (src/controllers/energy.controller.ts)\<close>

text \<open>
  The request as the handler sees it: \<open>userId\<close>, which the middleware sets from the
  verified token, and the parsed JSON body. A JSON number is an exact rational; an object
  is the list of its members, read with \<open>map_of\<close>.
\<close>

datatype json =
    JNull
  | JBool bool
  | JNumber rat
  | JString string
  | JArray "json list"
  | JObject "(string \<times> json) list"

record Request =
  req_userId :: "string option"
  req_body :: json

text \<open>\<open>Number.isInteger\<close>\<close>

definition isInteger :: "rat \<Rightarrow> bool" where
  "isInteger q \<longleftrightarrow> of_int \<lfloor>q\<rfloor> = q"

text \<open>
  The three members of \<open>logEnergySchema\<close>. Each returns \<open>None\<close> when the member raises
  an issue. An \<open>optional()\<close> member accepts \<open>undefined\<close>, that is a missing key.

  \<open>z.number().int().min(1).max(5)\<close>
\<close>

definition energy_level_schema :: "json option \<Rightarrow> int option" where
  "energy_level_schema v =
     (case v of
        Some (JNumber q) \<Rightarrow> if isInteger q \<and> 1 \<le> q \<and> q \<le> 5 then Some \<lfloor>q\<rfloor> else None
      | _ \<Rightarrow> None)"

definition string_of_json :: "json \<Rightarrow> string option" where
  "string_of_json j = (case j of JString s \<Rightarrow> Some s | _ \<Rightarrow> None)"

text \<open>\<open>z.array(z.string()).optional()\<close>\<close>

definition mood_tags_schema :: "json option \<Rightarrow> string list option option" where
  "mood_tags_schema v =
     (case v of
        None \<Rightarrow> Some None
      | Some (JArray xs) \<Rightarrow>
          if list_all (\<lambda>x. string_of_json x \<noteq> None) xs
          then Some (Some (concat (map (\<lambda>x. case string_of_json x of
                                              Some s \<Rightarrow> [s] | None \<Rightarrow> []) xs)))
          else None
      | Some _ \<Rightarrow> None)"

text \<open>\<open>z.string().max(500).optional()\<close>\<close>

definition notes_schema :: "json option \<Rightarrow> string option option" where
  "notes_schema v =
     (case v of
        None \<Rightarrow> Some None
      | Some (JString s) \<Rightarrow> if length s \<le> 500 then Some (Some s) else None
      | Some _ \<Rightarrow> None)"

text \<open>
  \<open>logEnergySchema.parse\<close>: the validated data (unknown keys are dropped), or a
  \<open>ZodError\<close>, of which the model keeps the keys that raised an issue (the empty key
  when the body is not an object).
\<close>

definition logEnergySchema_parse ::
  "json \<Rightarrow> string list + (int \<times> string list option \<times> string option)" where
  "logEnergySchema_parse b =
     (case b of
        JObject members \<Rightarrow>
          (case (energy_level_schema (map_of members ''energy_level''),
                 mood_tags_schema (map_of members ''mood_tags''),
                 notes_schema (map_of members ''notes'')) of
             (Some e, Some m, Some n) \<Rightarrow> Inr (e, m, n)
           | (e, m, n) \<Rightarrow>
               Inl ((if e = None then [''energy_level''] else [])
                    @ (if m = None then [''mood_tags''] else [])
                    @ (if n = None then [''notes''] else [])))
      | _ \<Rightarrow> Inl [''''])"

text \<open>What the handler sends: the status code and the JSON document.\<close>

datatype reply =
    ErrorReply string
  | ValidationReply string "string list"
  | EnergyLoggedReply string EnergyLog

datatype response = Response nat reply

text \<open>
  \<open>!userId\<close> holds for \<open>undefined\<close> and for the empty string. The \<open>catch\<close> answers 400
  to a \<open>ZodError\<close> and 500 to anything else.
\<close>

definition EnergyController_logEnergy ::
  "Db \<Rightarrow> int \<Rightarrow> string \<Rightarrow> Request \<Rightarrow> Db \<times> response" where
  "EnergyController_logEnergy db now new_id req =
     (case or_null_string (req_userId req) of
        None \<Rightarrow> (db, Response 401 (ErrorReply ''Authentication required''))
      | Some userId \<Rightarrow>
          (case logEnergySchema_parse (req_body req) of
             Inl issues \<Rightarrow> (db, Response 400 (ValidationReply ''Validation failed'' issues))
           | Inr (e, m, n) \<Rightarrow>
               (case logEnergy db now new_id
                       \<lparr>c_user_id = userId, c_energy_level = e, c_mood_tags = m, c_notes = n\<rparr> of
                  (db', Inr energyLog) \<Rightarrow>
                    (db', Response 201 (EnergyLoggedReply ''Energy logged successfully'' energyLog))
                | (db', Inl err) \<Rightarrow>
                    (db', Response 500 (ErrorReply ''Failed to log energy'')))))"

section \<open>The claims' vocabulary\<close>

subsection \<open>The ranking as the specification words it\<close>

text \<open>A due date is not after another: an absent date comes last.\<close>

definition due_not_after :: "int option \<Rightarrow> int option \<Rightarrow> bool" where
  "due_not_after a b =
     (case a of
        None \<Rightarrow> b = None
      | Some x \<Rightarrow> (case b of None \<Rightarrow> True | Some y \<Rightarrow> x \<le> y))"

text \<open>Score descending, then priority descending, then due date ascending.\<close>

definition ranks_before :: "TaskWithEnergyMatch \<Rightarrow> TaskWithEnergyMatch \<Rightarrow> bool" where
  "ranks_before a b \<longleftrightarrow>
     energy_match_score a > energy_match_score b
     \<or> (energy_match_score a = energy_match_score b
        \<and> (priority a > priority b
           \<or> (priority a = priority b \<and> due_not_after (due_date a) (due_date b))))"

subsection \<open>The energy pattern as the specification words it\<close>

definition default_pattern :: "string \<Rightarrow> EnergyPattern" where
  "default_pattern userId =
     \<lparr>pattern_user_id = userId, average_energy = 3, peak_hours = [], low_hours = [],
      patterns = None\<rparr>"

definition mean :: "EnergyLog list \<Rightarrow> rat" where
  "mean logs = (\<Sum>l\<leftarrow>logs. of_int (energy_level l)) / of_nat (length logs)"

definition logs_of_hour :: "EnergyLog list \<Rightarrow> int \<Rightarrow> EnergyLog list" where
  "logs_of_hour logs h = filter (\<lambda>l. extract_hour (logged_at l) = h) logs"

text \<open>
  A ranking of the hours of the given logs: one entry for each hour of the day that has a
  log, with the mean and the number of that hour's logs, by mean descending.
\<close>

definition hour_ranking :: "EnergyLog list \<Rightarrow> HourRow list \<Rightarrow> bool" where
  "hour_ranking logs ranking \<longleftrightarrow>
     sorted_wrt (\<lambda>a b. avg_energy a \<ge> avg_energy b) ranking
     \<and> distinct (map hour ranking)
     \<and> set (map hour ranking) = (\<lambda>l. extract_hour (logged_at l)) ` set logs
     \<and> (\<forall>r \<in> set ranking. avg_energy r = mean (logs_of_hour logs (hour r))
                            \<and> count r = length (logs_of_hour logs (hour r)))"

text \<open>The last \<open>n\<close> entries of a list.\<close>

definition last_entries :: "nat \<Rightarrow> 'a list \<Rightarrow> 'a list" where
  "last_entries n xs = rev (take n (rev xs))"

subsection \<open>The insight rules as the specification words them\<close>

definition rule_holds :: "EnergyPattern \<Rightarrow> EnergyLog option \<Rightarrow> int \<Rightarrow> string \<Rightarrow> bool" where
  "rule_holds p latest currentHour ty =
     (if ty = ''peak_hours'' then peak_hours p \<noteq> []
      else if ty = ''energy_mismatch''
        then (case latest of
                None \<Rightarrow> False
              | Some l \<Rightarrow> currentHour \<in> set (peak_hours p) \<and> energy_level l < 4)
      else if ty = ''low_average'' then average_energy p < 3
      else False)"

definition rule_confidence :: "string \<Rightarrow> rat" where
  "rule_confidence ty =
     (if ty = ''peak_hours'' then 85 / 100
      else if ty = ''energy_mismatch'' then 75 / 100
      else 80 / 100)"

subsection \<open>The domain of the energy level as the specification words it\<close>

text \<open>The body carries an \<open>energy_level\<close> that is one of the integers 1 to 5.\<close>

definition energy_level_in_domain :: "json \<Rightarrow> bool" where
  "energy_level_in_domain b =
     (case b of
        JObject members \<Rightarrow>
          (case map_of members ''energy_level'' of
             Some (JNumber q) \<Rightarrow> q \<in> {1, 2, 3, 4, 5}
           | _ \<Rightarrow> False)
      | _ \<Rightarrow> False)"

subsection \<open>Completed tasks\<close>

text \<open>
  Between two stores: every row of the second whose identifier was that of a completed
  task in the first is completed.
\<close>

definition completed_stay :: "Db \<Rightarrow> Db \<Rightarrow> bool" where
  "completed_stay db db' \<longleftrightarrow>
     (\<forall>t' \<in> set (tasks db').
        (\<exists>t \<in> set (tasks db). task_id t = task_id t' \<and> status t = ''completed'')
        \<longrightarrow> status t' = ''completed'')"

text \<open>The actual duration is absent or fits the \<open>INTEGER\<close> column \<open>actual_duration\<close>.\<close>

definition duration_fits :: "int option \<Rightarrow> bool" where
  "duration_fits actualDuration =
     (case actualDuration of None \<Rightarrow> True | Some v \<Rightarrow> fits_integer v)"

text \<open>The row as the statement of \<open>complete\<close> and the trigger leave it.\<close>

definition mark_completed :: "int \<Rightarrow> int option \<Rightarrow> Task \<Rightarrow> Task" where
  "mark_completed now actualDuration t =
     t\<lparr>status := ''completed'', completed_at := Some now,
       actual_duration := or_null_int actualDuration, updated_at := now\<rparr>"

text \<open>
  The constraints of the schema that the model keeps: \<open>id\<close> is the primary key of
  \<open>tasks\<close>, and every row is one that the store accepts.
\<close>

definition schema_ok :: "Db \<Rightarrow> bool" where
  "schema_ok db \<longleftrightarrow> distinct (map task_id (tasks db)) \<and> list_all row_accepted (tasks db)"

section \<open>Example stores\<close>

definition empty_db :: Db where
  "empty_db = \<lparr>tasks = [], projects = [], energy_logs = []\<rparr>"

text \<open>A pending task of user \<open>u1\<close> with energy requirement 3.\<close>

definition plain_task :: "string \<Rightarrow> int \<Rightarrow> int option \<Rightarrow> Task" where
  "plain_task i pr due =
     \<lparr>task_id = i, user_id = ''u1'', project_id = None, title = i, description = None,
      energy_requirement = 3, priority = pr, status = ''pending'', due_date = due,
      completed_at = None, estimated_duration = None, actual_duration = None,
      points = calculateBasePoints pr 3, tags = [], created_at = 0, updated_at = 0\<rparr>"

text \<open>Tasks A (priority 5, no due date), B (priority 5, due in two days' time) and
  C (priority 3, due in one day's time).\<close>

definition abc_db :: Db where
  "abc_db = \<lparr>tasks = [plain_task ''A'' 5 None, plain_task ''B'' 5 (Some 172800000000),
                       plain_task ''C'' 3 (Some 86400000000)],
             projects = [], energy_logs = []\<rparr>"

text \<open>A pending task and one completed at instant 100.\<close>

definition q_done :: Task where
  "q_done = (plain_task ''Q'' 3 None)\<lparr>status := ''completed'', completed_at := Some 100\<rparr>"

definition mixed_db :: Db where
  "mixed_db = \<lparr>tasks = [plain_task ''P'' 3 None, q_done], projects = [], energy_logs = []\<rparr>"

definition data_p3_e5 :: CreateTaskData where
  "data_p3_e5 = \<lparr>d_user_id = ''u1'', d_project_id = None, d_title = ''write report'',
     d_description = None, d_energy_requirement = Some 5, d_priority = Some 3,
     d_due_date = None, d_estimated_duration = None, d_tags = None\<rparr>"

definition no_change :: PartialTaskData where
  "no_change = \<lparr>u_user_id = None, u_project_id = None, u_title = None, u_description = None,
     u_energy_requirement = None, u_priority = None, u_due_date = None,
     u_estimated_duration = None, u_tags = None\<rparr>"

text \<open>
  Energy logs of user \<open>u1\<close> on days 38 and 39 (four hours with a mean of at least 4, four
  with a mean of at most 2), one of day 5, and one of another user.
\<close>

definition log_at :: "string \<Rightarrow> string \<Rightarrow> int \<Rightarrow> int \<Rightarrow> int \<Rightarrow> EnergyLog" where
  "log_at i u day h level =
     \<lparr>log_id = i, log_user_id = u, energy_level = level, mood_tags = None, log_notes = None,
      logged_at = day * usec_per_day + h * usec_per_hour, predicted_at = None\<rparr>"

definition logs_db :: Db where
  "logs_db = \<lparr>tasks = [], projects = [],
     energy_logs = [log_at ''l1'' ''u1'' 39 9 5, log_at ''l2'' ''u1'' 38 9 4,
                    log_at ''l3'' ''u1'' 39 10 4, log_at ''l4'' ''u1'' 39 11 5,
                    log_at ''l5'' ''u1'' 39 14 5, log_at ''l6'' ''u1'' 39 20 2,
                    log_at ''l7'' ''u1'' 39 21 1, log_at ''l8'' ''u1'' 39 22 2,
                    log_at ''l9'' ''u1'' 39 23 1, log_at ''l10'' ''u1'' 5 12 3,
                    log_at ''l11'' ''u2'' 39 12 3]\<rparr>"

text \<open>
  Energy logs of user \<open>u1\<close> whose eight hours have eight different means: 5, 9/2, 13/3
  and 4 at the hours 11, 9, 14 and 10, and 2, 3/2, 4/3 and 1 at the hours 20, 22, 21 and
  23; one log of day 5, and one of another user.
\<close>

definition ranked_db :: Db where
  "ranked_db = \<lparr>tasks = [], projects = [],
     energy_logs = [log_at ''r1'' ''u1'' 39 11 5,
                    log_at ''r2'' ''u1'' 39 9 5, log_at ''r3'' ''u1'' 38 9 4,
                    log_at ''r4'' ''u1'' 39 14 5, log_at ''r5'' ''u1'' 38 14 4,
                    log_at ''r6'' ''u1'' 37 14 4,
                    log_at ''r7'' ''u1'' 39 10 4,
                    log_at ''r8'' ''u1'' 39 20 2,
                    log_at ''r9'' ''u1'' 39 22 2, log_at ''r10'' ''u1'' 38 22 1,
                    log_at ''r11'' ''u1'' 39 21 1, log_at ''r12'' ''u1'' 38 21 1,
                    log_at ''r13'' ''u1'' 37 21 2,
                    log_at ''r14'' ''u1'' 39 23 1,
                    log_at ''r15'' ''u1'' 5 12 3, log_at ''r16'' ''u2'' 39 12 3]\<rparr>"

text \<open>Two logs, of levels 2 and 3.\<close>

definition low_db :: Db where
  "low_db = \<lparr>tasks = [], projects = [],
     energy_logs = [log_at ''m1'' ''u1'' 39 9 2, log_at ''m2'' ''u1'' 39 15 3]\<rparr>"

text \<open>An authenticated request with the energy level 6.\<close>

definition request6 :: Request where
  "request6 =
     \<lparr>req_userId = Some ''auth0|u1'',
      req_body = JObject [(''energy_level'', JNumber 6), (''notes'', JString ''wired'')]\<rparr>"

section \<open>Properties\<close>

lemma Math_round_half_up: "Math_round x = round_half_up x"
proof -
  have fl: "of_int \<lfloor>x\<rfloor> \<le> x" "x < of_int \<lfloor>x\<rfloor> + 1"
    by linarith+
  show ?thesis
  proof (cases "frac x < 1 / 2")
    case True
    then have "x + 1 / 2 < of_int \<lfloor>x\<rfloor> + 1"
      by (simp add: frac_def)
    with fl have "\<lfloor>x + 1 / 2\<rfloor> = \<lfloor>x\<rfloor>"
      unfolding floor_eq_iff by linarith
    with True show ?thesis
      by (simp add: Math_round_def round_half_up_def)
  next
    case False
    then have "of_int (\<lfloor>x\<rfloor> + 1) \<le> x + 1 / 2"
      by (simp add: frac_def)
    moreover from fl have "x + 1 / 2 < of_int (\<lfloor>x\<rfloor> + 1) + 1"
      by simp
    ultimately have "\<lfloor>x + 1 / 2\<rfloor> = \<lfloor>x\<rfloor> + 1"
      unfolding floor_eq_iff by linarith
    with False show ?thesis
      by (simp add: Math_round_def round_half_up_def)
  qed
qed

lemma priorityMultiplier_spec: "priorityMultiplier p = spec_priorityMultiplier p"
  by (simp add: priorityMultiplier_def spec_priorityMultiplier_def or_int_def)

lemma energyMultiplier_spec: "energyMultiplier e = spec_energyMultiplier e"
  by (simp add: energyMultiplier_def spec_energyMultiplier_def or_rat_def)

lemma calculateBasePoints_eval:
  "calculateBasePoints p e =
     \<lfloor>of_int (spec_priorityMultiplier p) * spec_energyMultiplier e + 1 / 2\<rfloor>"
  by (simp add: calculateBasePoints_def Math_round_def priorityMultiplier_spec
      energyMultiplier_spec)

text \<open>
  C2. For all integers, \<open>calculateBasePoints\<close> is the product of the two table entries
  (40 and 1.0 outside the tables), rounded half up; (3,3) gives 40, (5,5) gives 225,
  (1,1) gives 5 and (99,99) gives 40. The function is total: it has no failing input.
\<close>

theorem calculateBasePoints_table:
  "calculateBasePoints p e =
     round_half_up (of_int (spec_priorityMultiplier p)
                    * spec_energyMultiplier e)
   \<and> calculateBasePoints 3 3 = 40
   \<and> calculateBasePoints 5 5 = 225
   \<and> calculateBasePoints 1 1 = 5
   \<and> calculateBasePoints 99 99 = 40"
proof -
  have "calculateBasePoints p e =
     round_half_up (of_int (spec_priorityMultiplier p)
                    * spec_energyMultiplier e)"
    by (simp add: calculateBasePoints_def Math_round_half_up priorityMultiplier_spec
        energyMultiplier_spec)
  moreover have "calculateBasePoints 3 3 = 40"
    by (simp add: calculateBasePoints_eval spec_priorityMultiplier_def spec_energyMultiplier_def
        floor_eq_iff)
  moreover have "calculateBasePoints 5 5 = 225"
    by (simp add: calculateBasePoints_eval spec_priorityMultiplier_def spec_energyMultiplier_def
        floor_eq_iff)
  moreover have "calculateBasePoints 1 1 = 5"
    by (simp add: calculateBasePoints_eval spec_priorityMultiplier_def spec_energyMultiplier_def
        floor_eq_iff)
  moreover have "calculateBasePoints 99 99 = 40"
    by (simp add: calculateBasePoints_eval spec_priorityMultiplier_def spec_energyMultiplier_def
        floor_eq_iff)
  ultimately show ?thesis by blast
qed

subsection \<open>Points on create and update\<close>

lemma calculateBasePoints_values:
  "calculateBasePoints 3 5 = 60" "calculateBasePoints 4 3 = 80"
  "calculateBasePoints 4 5 = 120" "calculateBasePoints 3 1 = 20"
  "calculateBasePoints 3 3 = 40" "calculateBasePoints 5 3 = 150"
  by (simp_all add: calculateBasePoints_eval spec_priorityMultiplier_def
      spec_energyMultiplier_def floor_eq_iff)

text \<open>\<open>create\<close> stores the points of the priority and energy requirement it stores.\<close>

lemma create_points:
  "create db now new_id data = (db', Inr t) \<Longrightarrow>
     points t = calculateBasePoints (priority t) (energy_requirement t)"
  by (auto simp: create_def Let_def split: if_splits)

text \<open>
  C1. The stored points are meant to be the points of the stored priority and energy
  requirement after every create and update. \<open>create\<close> keeps that (a task created with
  priority 3 and energy requirement 5 has 60 points), \<open>update\<close> does not: changing only
  the priority to 4 stores the points of (4, 3), which is 80, on a task whose energy
  requirement is 5 (whose points would be 120); changing only the energy requirement
  to 1 leaves the 60 points in place (the points of (3, 1) are 20).
\<close>

theorem update_points_diverge:
  "map_sum id (\<lambda>t. (priority t, energy_requirement t, points t))
     (snd (create empty_db 100 ''t1'' data_p3_e5)) = Inr (3, 5, 60)
   \<and> calculateBasePoints 3 5 = 60
   \<and> map_sum id (\<lambda>t. (priority t, energy_requirement t, points t))
       (snd (update (fst (create empty_db 100 ''t1'' data_p3_e5)) 200 ''t1'' ''u1''
               (no_change\<lparr>u_priority := Some 4\<rparr>))) = Inr (4, 5, 80)
   \<and> calculateBasePoints 4 5 = 120
   \<and> map_sum id (\<lambda>t. (priority t, energy_requirement t, points t))
       (snd (update (fst (create empty_db 100 ''t1'' data_p3_e5)) 200 ''t1'' ''u1''
               (no_change\<lparr>u_energy_requirement := Some 1\<rparr>))) = Inr (3, 1, 60)
   \<and> calculateBasePoints 3 1 = 20"
  by (simp add: create_def empty_db_def data_p3_e5_def no_change_def or_int_def
      or_null_string_def or_null_int_def row_accepted_def task_checks_def task_integers_def
      fits_integer_def calculateBasePoints_values
      update_def update_fields_def push_if_def update_tasks_def db_one_def Let_def)

subsection \<open>Energy matching\<close>

lemma left_join_projects_task:
  "(t, p) \<in> set (left_join_projects db) \<Longrightarrow> t \<in> set (tasks db)"
proof -
  assume "(t, p) \<in> set (left_join_projects db)"
  then obtain x where x: "x \<in> set (tasks db)"
    and tp: "(t, p) \<in> set (case filter (\<lambda>p. project_id x = Some (proj_id p)) (projects db) of
                          [] \<Rightarrow> [(x, None)]
                        | ps \<Rightarrow> map (\<lambda>p. (x, Some p)) ps)"
    by (auto simp: left_join_projects_def)
  from tp have "t = x"
    by (cases "filter (\<lambda>p. project_id x = Some (proj_id p)) (projects db)") auto
  with x show ?thesis by simp
qed

lemma energy_match_query_rows:
  assumes "r \<in> set (energy_match_query db userId level filters)"
  shows "\<exists>t p. r = select_match level (t, p) \<and> t \<in> set (tasks db)
              \<and> user_id t = userId \<and> status t = ''pending''"
  using assms
  by (auto simp: energy_match_query_def Let_def split: option.splits
      dest: left_join_projects_task)

lemma select_match_simps:
  "energy_match (select_match level (t, p)) = (energy_requirement t = level)"
  "energy_match_score (select_match level (t, p)) =
     (if energy_requirement t = level then 1
      else if \<bar>energy_requirement t - level\<bar> = 1 then 1 / 2 else 0)"
  "project (select_match level (t, p)) = p"
  "energy_requirement (select_match level (t, p)) = energy_requirement t"
  "priority (select_match level (t, p)) = priority t"
  "points (select_match level (t, p)) = points t"
  "status (select_match level (t, p)) = status t"
  "due_date (select_match level (t, p)) = due_date t"
  "task_id (select_match level (t, p)) = task_id t"
  "user_id (select_match level (t, p)) = user_id t"
  by (simp_all add: select_match_def Task.defs MatchRow.defs)

lemma with_bonus_simps:
  "bonus_points (with_bonus r) =
     (if energy_match r then Math_round (of_int (points r) * (1 / 4)) else 0)"
  "energy_match (with_bonus r) = energy_match r"
  "energy_match_score (with_bonus r) = energy_match_score r"
  "energy_requirement (with_bonus r) = energy_requirement r"
  "priority (with_bonus r) = priority r"
  "points (with_bonus r) = points r"
  "status (with_bonus r) = status r"
  "due_date (with_bonus r) = due_date r"
  "task_id (with_bonus r) = task_id r"
  by (simp_all add: with_bonus_def MatchRow.defs TaskWithEnergyMatch.defs)

lemma abc_db_rows:
  "map (\<lambda>r. (task_id r, energy_requirement r, points r))
     (getTasksWithEnergyMatch abc_db ''u1'' level None) =
   [(''B'', 3, 150), (''A'', 3, 150), (''C'', 3, 40)]"
  by (simp add: getTasksWithEnergyMatch_def energy_match_query_def abc_db_def plain_task_def
      left_join_projects_def or_null_string_def or_null_int_def select_match_simps
      with_bonus_simps order_key_def comp_def calculateBasePoints_values)

text \<open>
  C3. Every task returned for the queried level has \<open>energy_match\<close> true exactly when its
  energy requirement is the level, the score 1.0 when they are equal, 0.5 when they differ
  by one and 0.0 otherwise, and the bonus \<open>round(points * 0.25)\<close> when it matches, 0
  otherwise.
\<close>

theorem energy_match_fields:
  "\<forall>r \<in> set (getTasksWithEnergyMatch db userId level filters).
      energy_match r = (energy_requirement r = level)
    \<and> energy_match_score r =
        (if energy_requirement r = level then 1
         else if \<bar>energy_requirement r - level\<bar> = 1 then 1 / 2 else 0)
    \<and> bonus_points r =
        (if energy_match r then round_half_up (of_int (points r) * (1 / 4)) else 0)"
proof
  fix r assume "r \<in> set (getTasksWithEnergyMatch db userId level filters)"
  then obtain q where q: "q \<in> set (energy_match_query db userId level filters)"
    and r: "r = with_bonus q"
    by (auto simp: getTasksWithEnergyMatch_def)
  from energy_match_query_rows [OF q] obtain t p where "q = select_match level (t, p)"
    by blast
  with r show "energy_match r = (energy_requirement r = level)
    \<and> energy_match_score r =
        (if energy_requirement r = level then 1
         else if \<bar>energy_requirement r - level\<bar> = 1 then 1 / 2 else 0)
    \<and> bonus_points r =
        (if energy_match r then round_half_up (of_int (points r) * (1 / 4)) else 0)"
    by (simp add: with_bonus_simps select_match_simps Math_round_half_up)
qed

text \<open>Task C of the example store, queried at level 3 and at level 4.\<close>

theorem energy_match_fields_witness:
  "(\<exists>r \<in> set (getTasksWithEnergyMatch abc_db ''u1'' 3 None).
      task_id r = ''C'' \<and> energy_match r \<and> energy_match_score r = 1 \<and> bonus_points r = 10)
   \<and> (\<exists>r \<in> set (getTasksWithEnergyMatch abc_db ''u1'' 4 None).
      task_id r = ''C'' \<and> \<not> energy_match r \<and> energy_match_score r = 1 / 2
      \<and> bonus_points r = 0)"
proof -
  have half_up: "round_half_up (40 * (1 / 4)) = 10"
    by (simp add: Math_round_half_up [symmetric] Math_round_def floor_eq_iff)
  have "(''C'', 3, 40) \<in> set (map (\<lambda>r. (task_id r, energy_requirement r, points r))
          (getTasksWithEnergyMatch abc_db ''u1'' 3 None))"
    by (simp add: abc_db_rows)
  then obtain r where r: "r \<in> set (getTasksWithEnergyMatch abc_db ''u1'' 3 None)"
    "task_id r = ''C''" "energy_requirement r = 3" "points r = 40"
    by auto
  have "(''C'', 3, 40) \<in> set (map (\<lambda>r. (task_id r, energy_requirement r, points r))
          (getTasksWithEnergyMatch abc_db ''u1'' 4 None))"
    by (simp add: abc_db_rows)
  then obtain r' where r': "r' \<in> set (getTasksWithEnergyMatch abc_db ''u1'' 4 None)"
    "task_id r' = ''C''" "energy_requirement r' = 3" "points r' = 40"
    by auto
  from energy_match_fields [THEN bspec, OF r(1)] r(2-) half_up
  have "task_id r = ''C'' \<and> energy_match r \<and> energy_match_score r = 1 \<and> bonus_points r = 10"
    by simp
  moreover from energy_match_fields [THEN bspec, OF r'(1)] r'(2-)
  have "task_id r' = ''C'' \<and> \<not> energy_match r' \<and> energy_match_score r' = 1 / 2
      \<and> bonus_points r' = 0"
    by simp
  ultimately show ?thesis
    using r(1) r'(1) by blast
qed

lemma order_key_ranks_before:
  "order_key q \<le> order_key q' \<Longrightarrow> ranks_before (with_bonus q) (with_bonus q')"
  by (auto simp: order_key_def ranks_before_def due_not_after_def with_bonus_simps
      less_eq_prod_def split: option.splits)

text \<open>
  C4. The returned list is ordered by score descending, then priority descending, then
  due date ascending with the tasks without due date last; of the tasks A, B and C of the
  example store, all matching the queried level, B comes first, then A, then C.
\<close>

theorem getTasksWithEnergyMatch_ranked:
  "sorted_wrt ranks_before (getTasksWithEnergyMatch db userId level filters)
   \<and> map energy_match_score (getTasksWithEnergyMatch abc_db ''u1'' 3 None) = [1, 1, 1]
   \<and> map task_id (getTasksWithEnergyMatch abc_db ''u1'' 3 None) = [''B'', ''A'', ''C'']"
proof -
  let ?rows = "energy_match_query db userId level filters"
  have "sorted (map order_key ?rows)"
    by (simp add: energy_match_query_def Let_def)
  then have "sorted_wrt (\<lambda>q q'. order_key q \<le> order_key q') ?rows"
    by (simp add: sorted_map)
  then have "sorted_wrt (\<lambda>q q'. ranks_before (with_bonus q) (with_bonus q')) ?rows"
    by (rule sorted_wrt_mono_rel [rotated]) (rule order_key_ranks_before)
  then have "sorted_wrt ranks_before (getTasksWithEnergyMatch db userId level filters)"
    by (simp add: getTasksWithEnergyMatch_def sorted_wrt_map)
  moreover have "map energy_match_score (getTasksWithEnergyMatch abc_db ''u1'' 3 None) = [1, 1, 1]"
    by (simp add: getTasksWithEnergyMatch_def energy_match_query_def abc_db_def plain_task_def
      left_join_projects_def or_null_string_def or_null_int_def select_match_simps
      with_bonus_simps order_key_def comp_def)
  moreover have "map task_id (getTasksWithEnergyMatch abc_db ''u1'' 3 None) = [''B'', ''A'', ''C'']"
    by (simp add: getTasksWithEnergyMatch_def energy_match_query_def abc_db_def plain_task_def
      left_join_projects_def or_null_string_def or_null_int_def select_match_simps
      with_bonus_simps order_key_def comp_def)
  ultimately show ?thesis by blast
qed

text \<open>
  C10. Every task returned is pending, whatever \<open>filters.status\<close> is: the field is never
  read, so two filter objects that differ only there give the same list.
\<close>

theorem status_filter_ignored:
  "(\<forall>r \<in> set (getTasksWithEnergyMatch db userId level filters). status r = ''pending'')
   \<and> getTasksWithEnergyMatch db userId level (Some (f\<lparr>f_status := s\<rparr>)) =
       getTasksWithEnergyMatch db userId level (Some (f\<lparr>f_status := s'\<rparr>))"
proof -
  have "\<forall>r \<in> set (getTasksWithEnergyMatch db userId level filters). status r = ''pending''"
    by (auto simp: getTasksWithEnergyMatch_def with_bonus_simps select_match_simps
        dest!: energy_match_query_rows)
  moreover have "getTasksWithEnergyMatch db userId level (Some (f\<lparr>f_status := s\<rparr>)) =
       getTasksWithEnergyMatch db userId level (Some (f\<lparr>f_status := s'\<rparr>))"
    by (simp add: getTasksWithEnergyMatch_def energy_match_query_def)
  ultimately show ?thesis ..
qed

text \<open>Asking the example store for completed tasks returns the pending one.\<close>

theorem status_filter_ignored_witness:
  "map task_id (getTasksWithEnergyMatch mixed_db ''u1'' 3
      (Some \<lparr>f_status = Some ''completed'', f_project_id = None, f_priority = None\<rparr>)) = [''P'']
   \<and> map status (getTasksWithEnergyMatch mixed_db ''u1'' 3
      (Some \<lparr>f_status = Some ''completed'', f_project_id = None, f_priority = None\<rparr>))
     = [''pending'']
   \<and> getTasksWithEnergyMatch mixed_db ''u1'' 3
      (Some \<lparr>f_status = Some ''completed'', f_project_id = None, f_priority = None\<rparr>) =
     getTasksWithEnergyMatch mixed_db ''u1'' 3
      (Some \<lparr>f_status = None, f_project_id = None, f_priority = None\<rparr>)"
proof -
  let ?f = "\<lparr>f_status = Some ''completed'', f_project_id = None, f_priority = None\<rparr>"
  let ?res = "getTasksWithEnergyMatch mixed_db ''u1'' 3 (Some ?f)"
  have ids: "map task_id ?res = [''P'']"
    by (simp add: getTasksWithEnergyMatch_def energy_match_query_def mixed_db_def q_done_def plain_task_def
      left_join_projects_def or_null_string_def or_null_int_def select_match_simps
      with_bonus_simps order_key_def comp_def)
  then obtain r where res: "?res = [r]"
    by auto
  from status_filter_ignored [where db = mixed_db and userId = "''u1''" and level = 3
      and filters = "Some ?f" and f = ?f and s = "Some ''completed''" and s' = None]
  have all: "\<forall>r \<in> set ?res. status r = ''pending''"
    and same: "getTasksWithEnergyMatch mixed_db ''u1'' 3 (Some (?f\<lparr>f_status := Some ''completed''\<rparr>)) =
       getTasksWithEnergyMatch mixed_db ''u1'' 3 (Some (?f\<lparr>f_status := None\<rparr>))"
    by blast+
  from all res have "map status ?res = [''pending'']"
    by simp
  with ids same show ?thesis
    by simp
qed

subsection \<open>Completion\<close>

lemma filter_primary_key:
  "distinct (map task_id ts) \<Longrightarrow> t \<in> set ts \<Longrightarrow>
     filter (\<lambda>x. task_id x = task_id t \<and> user_id x = user_id t) ts = [t]"
proof (induction ts)
  case Nil
  then show ?case by simp
next
  case (Cons a ts)
  show ?case
  proof (cases "a = t")
    case True
    with Cons.prems have "\<forall>x \<in> set ts. task_id x \<noteq> task_id t"
      by (auto simp: image_iff)
    then have "filter (\<lambda>x. task_id x = task_id t \<and> user_id x = user_id t) ts = []"
      by (auto simp: filter_empty_conv)
    with True show ?thesis by simp
  next
    case False
    with Cons.prems have "t \<in> set ts" "task_id a \<noteq> task_id t"
      by (auto simp: image_iff)
    with Cons show ?thesis by simp
  qed
qed

lemma findById_found:
  "distinct (map task_id (tasks db)) \<Longrightarrow> t \<in> set (tasks db) \<Longrightarrow>
     findById db (task_id t) (user_id t) = Some t"
  by (simp add: findById_def filter_primary_key db_one_def)

lemma findById_missing:
  "\<not> (\<exists>t \<in> set (tasks db). task_id t = i \<and> user_id t = userId) \<Longrightarrow>
     findById db i userId = None"
proof -
  assume "\<not> (\<exists>t \<in> set (tasks db). task_id t = i \<and> user_id t = userId)"
  then have "filter (\<lambda>t. task_id t = i \<and> user_id t = userId) (tasks db) = []"
    by (auto simp: filter_empty_conv)
  then show ?thesis
    by (simp add: findById_def db_one_def)
qed

lemma status_fold_assign: "status (fold assign fs t) = status t"
proof (induction fs arbitrary: t)
  case Nil
  then show ?case by simp
next
  case (Cons a fs)
  then show ?case by (cases a) simp_all
qed

lemma task_id_fold_assign: "task_id (fold assign fs t) = task_id t"
proof (induction fs arbitrary: t)
  case Nil
  then show ?case by simp
next
  case (Cons a fs)
  then show ?case by (cases a) simp_all
qed

lemma primary_key_unique:
  "distinct (map task_id ts) \<Longrightarrow> x \<in> set ts \<Longrightarrow> y \<in> set ts \<Longrightarrow> task_id x = task_id y
     \<Longrightarrow> x = y"
  by (meson distinct_map inj_onD)

lemma completed_stay_map:
  assumes "distinct (map task_id (tasks db))"
    and "\<And>x. task_id (g x) = task_id x"
    and "\<And>x. status x = ''completed'' \<Longrightarrow> status (g x) = ''completed''"
  shows "completed_stay db (db\<lparr>tasks := map g (tasks db)\<rparr>)"
  unfolding completed_stay_def
proof (intro ballI impI)
  fix t' assume "t' \<in> set (tasks (db\<lparr>tasks := map g (tasks db)\<rparr>))"
    and "\<exists>t \<in> set (tasks db). task_id t = task_id t' \<and> status t = ''completed''"
  then obtain x t where x: "x \<in> set (tasks db)" "t' = g x"
    and t: "t \<in> set (tasks db)" "task_id t = task_id t'" "status t = ''completed''"
    by auto
  from x t assms(2) have "task_id x = task_id t"
    by simp
  with assms(1) x(1) t(1) have "x = t"
    by (rule primary_key_unique)
  with x t assms(3) show "status t' = ''completed''"
    by simp
qed

lemma completed_stay_same:
  "distinct (map task_id (tasks db)) \<Longrightarrow> completed_stay db db"
  unfolding completed_stay_def by (auto dest: primary_key_unique)

lemma completed_stay_filter:
  "distinct (map task_id (tasks db)) \<Longrightarrow> completed_stay db (db\<lparr>tasks := filter P (tasks db)\<rparr>)"
  unfolding completed_stay_def by (auto dest: primary_key_unique)

lemma completed_stay_append:
  "distinct (map task_id (tasks db)) \<Longrightarrow> task_id row \<notin> task_id ` set (tasks db) \<Longrightarrow>
     completed_stay db (db\<lparr>tasks := tasks db @ [row]\<rparr>)"
  unfolding completed_stay_def by (auto dest: primary_key_unique simp: image_iff)

lemma create_completed_stay:
  "distinct (map task_id (tasks db)) \<Longrightarrow> completed_stay db (fst (create db now new_id data))"
  by (simp add: create_def Let_def completed_stay_same completed_stay_append)

lemma update_completed_stay:
  assumes "distinct (map task_id (tasks db))"
  shows "completed_stay db (fst (update db now i userId data))"
proof -
  let ?g = "\<lambda>t. if task_id t = i \<and> user_id t = userId
                 then (fold assign (update_fields data) t)\<lparr>updated_at := now\<rparr> else t"
  have "completed_stay db (db\<lparr>tasks := map ?g (tasks db)\<rparr>)"
    using assms by (rule completed_stay_map) (simp_all add: status_fold_assign task_id_fold_assign)
  then show ?thesis
    using completed_stay_same [OF assms]
    by (simp add: update_def Let_def update_tasks_def split: option.splits)
qed

lemma complete_completed_stay:
  assumes "distinct (map task_id (tasks db))"
  shows "completed_stay db (fst (complete_task db now i userId actualDuration currentEnergyLevel))"
proof -
  let ?g = "\<lambda>t. if task_id t = i \<and> user_id t = userId
                 then (t\<lparr>status := ''completed'', completed_at := Some now,
                          actual_duration := or_null_int actualDuration\<rparr>)\<lparr>updated_at := now\<rparr>
                 else t"
  have "completed_stay db (db\<lparr>tasks := map ?g (tasks db)\<rparr>)"
    using assms by (rule completed_stay_map) simp_all
  then show ?thesis
    using completed_stay_same [OF assms]
    by (simp add: complete_task_def Let_def update_tasks_def split: option.splits)
qed

lemma delete_completed_stay:
  "distinct (map task_id (tasks db)) \<Longrightarrow> completed_stay db (fst (delete db i userId))"
  by (simp add: delete_def completed_stay_filter)

lemma replace_row:
  assumes "distinct (map task_id ts)" and "t \<in> set ts"
  shows "map (\<lambda>x. if task_id x = task_id t \<and> user_id x = user_id t then g x else x) ts =
         map (\<lambda>x. if x = t then g t else x) ts"
proof (rule map_cong [OF refl])
  fix x assume "x \<in> set ts"
  with assms have "task_id x = task_id t \<longrightarrow> x = t"
    by (auto dest: primary_key_unique)
  then show "(if task_id x = task_id t \<and> user_id x = user_id t then g x else x) =
             (if x = t then g t else x)"
    by auto
qed

lemma row_accepted_mark_completed:
  "row_accepted t \<Longrightarrow> row_accepted (mark_completed now ad t) = duration_fits ad"
  by (cases ad)
    (auto simp: row_accepted_def task_checks_def task_integers_def mark_completed_def
      duration_fits_def or_null_int_def fits_integer_def)

lemma mark_completed_update:
  "(\<lambda>t. (t\<lparr>status := ''completed'', completed_at := Some now,
           actual_duration := or_null_int actualDuration\<rparr>)\<lparr>updated_at := now\<rparr>)
     = mark_completed now actualDuration"
  by (simp add: mark_completed_def fun_eq_iff)

lemma complete_found:
  assumes pk: "distinct (map task_id (tasks db))"
    and accepted: "list_all row_accepted (tasks db)"
    and t: "t \<in> set (tasks db)"
    and fits: "duration_fits actualDuration"
  shows "complete_task db now (task_id t) (user_id t) actualDuration currentEnergyLevel =
     (db\<lparr>tasks := map (\<lambda>x. if x = t then mark_completed now actualDuration t else x)
                     (tasks db)\<rparr>,
      Inr \<lparr>res_task = mark_completed now actualDuration t,
           res_points_earned = points t +
             (if currentEnergyLevel = Some (energy_requirement t)
              then Math_round (of_int (points t) * (1 / 4)) else 0),
           res_bonus_points =
             (if currentEnergyLevel = Some (energy_requirement t)
              then Math_round (of_int (points t) * (1 / 4)) else 0)\<rparr>)"
proof -
  from accepted t have acc: "row_accepted t"
    by (simp add: list_all_iff)
  then have nz: "energy_requirement t \<noteq> 0"
    by (simp add: row_accepted_def task_checks_def)
  from acc fits have new: "row_accepted (mark_completed now actualDuration t)"
    by (simp add: row_accepted_mark_completed)
  show ?thesis
    using nz new
    by (auto simp: complete_task_def findById_found [OF pk t] update_tasks_def Let_def
        mark_completed_update filter_primary_key [OF pk t] db_one_def
        replace_row [OF pk t])
qed

lemma complete_rejected:
  assumes pk: "distinct (map task_id (tasks db))"
    and accepted: "list_all row_accepted (tasks db)"
    and t: "t \<in> set (tasks db)"
    and big: "\<not> duration_fits actualDuration"
  shows "complete_task db now (task_id t) (user_id t) actualDuration currentEnergyLevel =
     (db, Inl DatabaseError)"
proof -
  from accepted t have "row_accepted t"
    by (simp add: list_all_iff)
  with big have "\<not> row_accepted (mark_completed now actualDuration t)"
    by (simp add: row_accepted_mark_completed)
  then show ?thesis
    by (simp add: complete_task_def findById_found [OF pk t] update_tasks_def Let_def
        mark_completed_update filter_primary_key [OF pk t])
qed

lemma complete_missing:
  "\<not> (\<exists>t \<in> set (tasks db). task_id t = i \<and> user_id t = userId) \<Longrightarrow>
     complete_task db now i userId actualDuration currentEnergyLevel = (db, Inl TaskNotFound)"
  by (simp add: complete_task_def findById_missing)

text \<open>
  C5, as the code has it. In a store that satisfies the schema, \<open>complete\<close> fails with
  "Task not found" exactly when no task has the given identifier and owner. For a task
  that exists and an actual duration that is absent or fits the \<open>INTEGER\<close> column it
  succeeds: the bonus is \<open>round(points * 0.25)\<close> when the current energy level is supplied
  and equals the task's energy requirement and 0 otherwise, and the points earned are
  the task's points plus the bonus. For a task that exists and a duration beyond the
  column's range the store refuses the update: \<open>complete\<close> fails with the store's error
  and the store is as it was.
\<close>

theorem complete_points:
  assumes "distinct (map task_id (tasks db))" and "list_all row_accepted (tasks db)"
  shows "(snd (complete_task db now i userId actualDuration currentEnergyLevel) = Inl TaskNotFound
            \<longleftrightarrow> \<not> (\<exists>t \<in> set (tasks db). task_id t = i \<and> user_id t = userId))
       \<and> (\<forall>t \<in> set (tasks db). task_id t = i \<and> user_id t = userId \<longrightarrow>
            (if duration_fits actualDuration
             then (\<exists>r. snd (complete_task db now i userId actualDuration currentEnergyLevel)
                         = Inr r
                    \<and> res_bonus_points r =
                        (if currentEnergyLevel = Some (energy_requirement t)
                         then round_half_up (of_int (points t) * (1 / 4)) else 0)
                    \<and> res_points_earned r = points t + res_bonus_points r)
             else complete_task db now i userId actualDuration currentEnergyLevel
                    = (db, Inl DatabaseError)))"
proof (cases "\<exists>t \<in> set (tasks db). task_id t = i \<and> user_id t = userId")
  case False
  then have "snd (complete_task db now i userId actualDuration currentEnergyLevel) = Inl TaskNotFound"
    by (simp add: complete_missing)
  with False show ?thesis
    by blast
next
  case True
  have found: "\<exists>r. snd (complete_task db now i userId actualDuration currentEnergyLevel) = Inr r
               \<and> res_bonus_points r =
                   (if currentEnergyLevel = Some (energy_requirement t)
                    then round_half_up (of_int (points t) * (1 / 4)) else 0)
               \<and> res_points_earned r = points t + res_bonus_points r"
    if "t \<in> set (tasks db)" "task_id t = i" "user_id t = userId" "duration_fits actualDuration"
    for t
    using complete_found [OF assms that(1,4), of now currentEnergyLevel] that(2,3)
    by (simp add: Math_round_half_up)
  have refused: "complete_task db now i userId actualDuration currentEnergyLevel
                    = (db, Inl DatabaseError)"
    if "t \<in> set (tasks db)" "task_id t = i" "user_id t = userId"
      "\<not> duration_fits actualDuration"
    for t
    using complete_rejected [OF assms that(1,4), of now currentEnergyLevel] that(2,3)
    by simp
  have "snd (complete_task db now i userId actualDuration currentEnergyLevel) \<noteq> Inl TaskNotFound"
  proof (cases "duration_fits actualDuration")
    case fits: True
    with True found show ?thesis
      by fastforce
  next
    case big: False
    with True refused show ?thesis
      by fastforce
  qed
  with True found refused show ?thesis
    by (cases "duration_fits actualDuration") auto
qed

text \<open>A task of 40 points: bonus 10 and 50 earned at the matching level, 0 and 40 with no
  level supplied; an unknown identifier is not found; a duration of \<open>2^31\<close> is refused.\<close>

theorem complete_points_witness:
  "(\<exists>r. snd (complete_task mixed_db 500 ''P'' ''u1'' (Some 25) (Some 3)) = Inr r
        \<and> res_bonus_points r = 10 \<and> res_points_earned r = 50)
   \<and> (\<exists>r. snd (complete_task mixed_db 500 ''P'' ''u1'' None None) = Inr r
        \<and> res_bonus_points r = 0 \<and> res_points_earned r = 40)
   \<and> snd (complete_task mixed_db 500 ''Z'' ''u1'' None None) = Inl TaskNotFound
   \<and> complete_task mixed_db 500 ''P'' ''u1'' (Some 2147483648) None
        = (mixed_db, Inl DatabaseError)"
proof -
  have pk: "distinct (map task_id (tasks mixed_db))"
    by (simp add: mixed_db_def q_done_def plain_task_def)
  have accepted: "list_all row_accepted (tasks mixed_db)"
    by (simp add: mixed_db_def q_done_def plain_task_def row_accepted_def task_checks_def
        task_integers_def fits_integer_def calculateBasePoints_values)
  have p: "plain_task ''P'' 3 None \<in> set (tasks mixed_db)"
    "task_id (plain_task ''P'' 3 None) = ''P'' \<and> user_id (plain_task ''P'' 3 None) = ''u1''"
    "energy_requirement (plain_task ''P'' 3 None) = 3" "points (plain_task ''P'' 3 None) = 40"
    by (simp_all add: mixed_db_def q_done_def plain_task_def calculateBasePoints_values)
  have z: "\<not> (\<exists>t \<in> set (tasks mixed_db). task_id t = ''Z'' \<and> user_id t = ''u1'')"
    by (simp add: mixed_db_def q_done_def plain_task_def)
  have fits: "duration_fits (Some 25)" "duration_fits None" "\<not> duration_fits (Some 2147483648)"
    by (simp_all add: duration_fits_def fits_integer_def)
  have half_up: "round_half_up (40 * (1 / 4)) = 10"
    by (simp add: Math_round_half_up [symmetric] Math_round_def floor_eq_iff)
  from complete_points [OF pk accepted, of 500 "''P''" "''u1''" "Some 25" "Some 3"] p half_up fits
  have "\<exists>r. snd (complete_task mixed_db 500 ''P'' ''u1'' (Some 25) (Some 3)) = Inr r
        \<and> res_bonus_points r = 10 \<and> res_points_earned r = 50"
    by fastforce
  moreover from complete_points [OF pk accepted, of 500 "''P''" "''u1''" None None] p fits
  have "\<exists>r. snd (complete_task mixed_db 500 ''P'' ''u1'' None None) = Inr r
        \<and> res_bonus_points r = 0 \<and> res_points_earned r = 40"
    by fastforce
  moreover from complete_points [OF pk accepted, of 500 "''Z''" "''u1''" None None] z
  have "snd (complete_task mixed_db 500 ''Z'' ''u1'' None None) = Inl TaskNotFound"
    by blast
  moreover
  from complete_points [OF pk accepted, of 500 "''P''" "''u1''" "Some 2147483648" None] p fits
  have "complete_task mixed_db 500 ''P'' ''u1'' (Some 2147483648) None
        = (mixed_db, Inl DatabaseError)"
    by fastforce
  ultimately show ?thesis by blast
qed

text \<open>
  Against C5 as it is worded: task P of the example store exists, for its owner; with the
  actual duration \<open>2^31\<close> and the matching energy level, \<open>complete\<close> returns neither
  points nor bonus: the store refuses the update and the error is the result.
\<close>

theorem complete_out_of_range:
  "findById mixed_db ''P'' ''u1'' = Some (plain_task ''P'' 3 None)
   \<and> energy_requirement (plain_task ''P'' 3 None) = 3
   \<and> complete_task mixed_db 500 ''P'' ''u1'' (Some 2147483648) (Some 3)
        = (mixed_db, Inl DatabaseError)"
  by (simp add: q_done_def mixed_db_def plain_task_def complete_task_def findById_def db_one_def
      update_tasks_def Let_def row_accepted_def task_checks_def task_integers_def
      fits_integer_def or_null_int_def calculateBasePoints_values)

text \<open>
  C6, as the code has it. In a store that satisfies the schema, none of \<open>create\<close>,
  \<open>update\<close>, \<open>complete\<close> and \<open>delete\<close> moves a task out of \<open>completed\<close>. \<open>complete\<close>
  does not look at the status: called for a task that is already completed, with an
  actual duration that is absent or fits the \<open>INTEGER\<close> column, it succeeds again,
  returns the points and the bonus as for a pending task, and overwrites the completion
  time and the actual duration, in the stored row as in the row it returns.
\<close>

theorem completed_is_terminal:
  assumes "distinct (map task_id (tasks db))" and "list_all row_accepted (tasks db)"
  shows "completed_stay db (fst (create db now new_id data))
       \<and> completed_stay db (fst (update db now i userId pdata))
       \<and> completed_stay db (fst (complete_task db now i userId actualDuration currentEnergyLevel))
       \<and> completed_stay db (fst (delete db i userId))
       \<and> (\<forall>t \<in> set (tasks db). status t = ''completed'' \<and> duration_fits actualDuration \<longrightarrow>
            complete_task db now (task_id t) (user_id t) actualDuration currentEnergyLevel =
              (db\<lparr>tasks := map (\<lambda>x. if x = t then mark_completed now actualDuration t else x)
                              (tasks db)\<rparr>,
               Inr \<lparr>res_task = mark_completed now actualDuration t,
                    res_points_earned = points t +
                      (if currentEnergyLevel = Some (energy_requirement t)
                       then Math_round (of_int (points t) * (1 / 4)) else 0),
                    res_bonus_points =
                      (if currentEnergyLevel = Some (energy_requirement t)
                       then Math_round (of_int (points t) * (1 / 4)) else 0)\<rparr>))"
  using assms
  by (simp add: create_completed_stay update_completed_stay complete_completed_stay
      delete_completed_stay complete_found)

text \<open>The completed task Q of the example store, completed once more.\<close>

theorem completed_is_terminal_witness:
  "completed_stay mixed_db (fst (update mixed_db 300 ''Q'' ''u1'' (no_change\<lparr>u_priority := Some 5\<rparr>)))
   \<and> completed_stay mixed_db (fst (complete_task mixed_db 900 ''Q'' ''u1'' (Some 30) (Some 3)))
   \<and> complete_task mixed_db 900 ''Q'' ''u1'' (Some 30) (Some 3) =
        (mixed_db\<lparr>tasks := [plain_task ''P'' 3 None,
                             q_done\<lparr>completed_at := Some 900, actual_duration := Some 30,
                                    updated_at := 900\<rparr>]\<rparr>,
         Inr \<lparr>res_task = q_done\<lparr>completed_at := Some 900, actual_duration := Some 30,
                                 updated_at := 900\<rparr>,
              res_points_earned = 50, res_bonus_points = 10\<rparr>)"
proof -
  have pk: "distinct (map task_id (tasks mixed_db))"
    by (simp add: mixed_db_def q_done_def plain_task_def)
  have accepted: "list_all row_accepted (tasks mixed_db)"
    by (simp add: mixed_db_def q_done_def plain_task_def row_accepted_def task_checks_def
        task_integers_def fits_integer_def calculateBasePoints_values)
  have q: "q_done \<in> set (tasks mixed_db)" "status q_done = ''completed''"
    "task_id q_done = ''Q''" "user_id q_done = ''u1''" "energy_requirement q_done = 3"
    "points q_done = 40" "duration_fits (Some 30)"
    by (simp_all add: mixed_db_def q_done_def plain_task_def calculateBasePoints_values
        duration_fits_def fits_integer_def)
  have m: "mark_completed 900 (Some 30) q_done =
      q_done\<lparr>completed_at := Some 900, actual_duration := Some 30, updated_at := 900\<rparr>"
    by (simp add: mark_completed_def q_done_def or_null_int_def)
  have rows: "map (\<lambda>x. if x = q_done then mark_completed 900 (Some 30) q_done else x)
                (tasks mixed_db) =
              [plain_task ''P'' 3 None,
               q_done\<lparr>completed_at := Some 900, actual_duration := Some 30, updated_at := 900\<rparr>]"
    unfolding m by (simp add: mixed_db_def q_done_def plain_task_def)
  have r: "Math_round (40 * (1 / 4)) = 10"
    by (simp add: Math_round_def floor_eq_iff)
  note th = completed_is_terminal [OF pk accepted, where now = 900 and i = "''Q''"
      and userId = "''u1''" and actualDuration = "Some 30" and currentEnergyLevel = "Some 3"]
  from th [where pdata = "no_change\<lparr>u_priority := Some 5\<rparr>"]
  have "completed_stay mixed_db (fst (complete_task mixed_db 900 ''Q'' ''u1'' (Some 30) (Some 3)))"
    by blast
  moreover from completed_is_terminal [OF pk accepted, where now = 300 and i = "''Q''"
      and userId = "''u1''" and pdata = "no_change\<lparr>u_priority := Some 5\<rparr>"]
  have "completed_stay mixed_db
          (fst (update mixed_db 300 ''Q'' ''u1'' (no_change\<lparr>u_priority := Some 5\<rparr>)))"
    by blast
  moreover from th have "\<forall>t \<in> set (tasks mixed_db).
      status t = ''completed'' \<and> duration_fits (Some 30) \<longrightarrow>
            complete_task mixed_db 900 (task_id t) (user_id t) (Some 30) (Some 3) =
              (mixed_db\<lparr>tasks := map (\<lambda>x. if x = t then mark_completed 900 (Some 30) t else x)
                              (tasks mixed_db)\<rparr>,
               Inr \<lparr>res_task = mark_completed 900 (Some 30) t,
                    res_points_earned = points t +
                      (if Some 3 = Some (energy_requirement t)
                       then Math_round (of_int (points t) * (1 / 4)) else 0),
                    res_bonus_points =
                      (if Some 3 = Some (energy_requirement t)
                       then Math_round (of_int (points t) * (1 / 4)) else 0)\<rparr>)"
    by blast
  from this [THEN bspec, OF q(1)] q(2-) rows m r
  have "complete_task mixed_db 900 ''Q'' ''u1'' (Some 30) (Some 3) =
        (mixed_db\<lparr>tasks := [plain_task ''P'' 3 None,
                             q_done\<lparr>completed_at := Some 900, actual_duration := Some 30,
                                    updated_at := 900\<rparr>]\<rparr>,
         Inr \<lparr>res_task = q_done\<lparr>completed_at := Some 900, actual_duration := Some 30,
                                 updated_at := 900\<rparr>,
              res_points_earned = 50, res_bonus_points = 10\<rparr>)"
    by simp
  ultimately show ?thesis by blast
qed

text \<open>
  Against C6 as it is worded: task Q of the example store is completed (at instant 100);
  \<open>complete\<close> on it, at instant 900 with the matching energy level, does not fail: it
  awards 50 points, 10 of them bonus, and rewrites the completion time and the duration.
\<close>

theorem complete_again_rescored:
  "status q_done = ''completed''
   \<and> tasks mixed_db = [plain_task ''P'' 3 None, q_done]
   \<and> complete_task mixed_db 900 ''Q'' ''u1'' (Some 30) (Some 3) =
       (mixed_db\<lparr>tasks := [plain_task ''P'' 3 None,
                            q_done\<lparr>completed_at := Some 900, actual_duration := Some 30,
                                   updated_at := 900\<rparr>]\<rparr>,
        Inr \<lparr>res_task = q_done\<lparr>completed_at := Some 900, actual_duration := Some 30,
                                updated_at := 900\<rparr>,
             res_points_earned = 50, res_bonus_points = 10\<rparr>)"
  by (simp add: q_done_def mixed_db_def plain_task_def complete_task_def findById_def db_one_def
      update_tasks_def Let_def row_accepted_def task_checks_def task_integers_def
      fits_integer_def or_null_int_def calculateBasePoints_values Math_round_def floor_eq_iff)

subsection \<open>Energy pattern\<close>

lemma extract_hour_range: "0 \<le> extract_hour ts \<and> extract_hour ts \<le> 23"
  by (simp add: extract_hour_def) 

lemma group_by_hour_hours:
  "map fst (group_by_hour logs) =
     filter (\<lambda>h. \<exists>l \<in> set logs. extract_hour (logged_at l) = h) [0..23]"
  unfolding group_by_hour_def
  by (induction "[0..23] :: int list") (auto simp: filter_map comp_def filter_empty_conv)

lemma group_by_hour_groups:
  "(h, g) \<in> set (group_by_hour logs) \<Longrightarrow> g = logs_of_hour logs h \<and> g \<noteq> []"
  by (auto simp: group_by_hour_def logs_of_hour_def)

lemma AVG_mean: "AVG (map energy_level g) = mean g"
proof -
  have "of_int (sum_list (map energy_level g)) = (\<Sum>l\<leftarrow>g. rat_of_int (energy_level l))"
    by (induction g) simp_all
  then show ?thesis
    by (simp add: AVG_def mean_def)
qed

lemma hour_row_simps:
  "hour (hour_row (h, g)) = h"
  "avg_energy (hour_row (h, g)) = mean g"
  "count (hour_row (h, g)) = length g"
  by (simp_all add: hour_row_def AVG_mean)

lemma map_hour_rows: "map hour (map hour_row gs) = map fst gs"
  by (induction gs) (auto simp: hour_row_def)

lemma distinct_map_insort_key:
  "distinct (map g (insort_key k x xs)) = (g x \<notin> g ` set xs \<and> distinct (map g xs))"
  by (induction xs) (auto simp: set_insort_key)

lemma distinct_map_sort_key: "distinct (map g (sort_key k xs)) = distinct (map g xs)"
  by (induction xs) (simp_all add: distinct_map_insort_key)

lemma hours_of_logs:
  "set (filter (\<lambda>h. \<exists>l \<in> set logs. extract_hour (logged_at l) = h) [0..23]) =
     (\<lambda>l. extract_hour (logged_at l)) ` set logs"
  using extract_hour_range by auto

lemma hourly_energy_ranking:
  "hour_ranking (window_logs db now userId) (hourly_energy db now userId)"
proof -
  let ?logs = "window_logs db now userId"
  let ?rows = "map hour_row (group_by_hour ?logs)"
  have "sorted (map (\<lambda>r. - avg_energy r) (hourly_energy db now userId))"
    by (simp add: hourly_energy_def)
  then have 1: "sorted_wrt (\<lambda>a b. avg_energy a \<ge> avg_energy b) (hourly_energy db now userId)"
    by (simp add: sorted_map)
  have "distinct (map hour ?rows)"
    unfolding map_hour_rows group_by_hour_hours by simp
  then have 2: "distinct (map hour (hourly_energy db now userId))"
    by (simp add: hourly_energy_def distinct_map_sort_key)
  have "set (map hour (hourly_energy db now userId)) = set (map hour ?rows)"
    by (simp add: hourly_energy_def image_image)
  also have "\<dots> = (\<lambda>l. extract_hour (logged_at l)) ` set ?logs"
    unfolding map_hour_rows group_by_hour_hours by (rule hours_of_logs)
  finally have 3: "set (map hour (hourly_energy db now userId)) =
      (\<lambda>l. extract_hour (logged_at l)) ` set ?logs" .
  have 4: "avg_energy r = mean (logs_of_hour ?logs (hour r))
         \<and> count r = length (logs_of_hour ?logs (hour r))"
    if "r \<in> set (hourly_energy db now userId)" for r
  proof -
    from that obtain h g where "(h, g) \<in> set (group_by_hour ?logs)" "r = hour_row (h, g)"
      by (auto simp: hourly_energy_def)
    then show ?thesis
      by (auto simp: hour_row_simps dest: group_by_hour_groups)
  qed
  from 1 2 3 4 show ?thesis
    unfolding hour_ranking_def by blast
qed

lemma slice_from_end_last: "slice_from_end n xs = last_entries n xs"
  by (simp add: slice_from_end_def last_entries_def rev_take)

text \<open>
  C7. With no log of the user in the 30 days before the first statement the default
  pattern is returned (average 3, no peak hours, no low hours). Otherwise the average is
  the mean of the energy levels of all those logs; the hours of the logs in the 30 days
  before the second statement are ranked by their mean, descending; the peak hours are
  the first three of the ranked hours with a mean of at least 4, the low hours the last
  three of the ranked hours with a mean of at most 2.
\<close>

theorem calculateEnergyPattern_rules:
  "(window_logs db now1 userId = [] \<longrightarrow>
      calculateEnergyPattern db now1 now2 userId = default_pattern userId)
   \<and> (window_logs db now1 userId \<noteq> [] \<longrightarrow>
      average_energy (calculateEnergyPattern db now1 now2 userId)
        = mean (window_logs db now1 userId)
      \<and> (\<exists>ranking.
           patterns (calculateEnergyPattern db now1 now2 userId)
             = Some \<lparr>total_logs = length (window_logs db now1 userId),
                     hourly_data = ranking\<rparr>
           \<and> hour_ranking (window_logs db now2 userId) ranking
           \<and> peak_hours (calculateEnergyPattern db now1 now2 userId)
               = take 3 (map hour (filter (\<lambda>r. avg_energy r \<ge> 4) ranking))
           \<and> low_hours (calculateEnergyPattern db now1 now2 userId)
               = last_entries 3 (map hour (filter (\<lambda>r. avg_energy r \<le> 2) ranking))))"
  by (simp add: calculateEnergyPattern_def Let_def default_pattern_def AVG_mean
      hourly_energy_ranking slice_from_end_last)

text \<open>
  The empty store; and, at the start of day 40, the example logs whose hourly means
  differ from one another, so that the ranking by mean is the only one there is.
\<close>

theorem calculateEnergyPattern_rules_witness:
  "calculateEnergyPattern empty_db (40 * usec_per_day) (40 * usec_per_day) ''u1''
     = default_pattern ''u1''
   \<and> average_energy
        (calculateEnergyPattern ranked_db (40 * usec_per_day) (40 * usec_per_day) ''u1'')
       = 41 / 14
   \<and> map avg_energy (hourly_energy ranked_db (40 * usec_per_day) ''u1'')
       = [5, 9 / 2, 13 / 3, 4, 2, 3 / 2, 4 / 3, 1]
   \<and> peak_hours
        (calculateEnergyPattern ranked_db (40 * usec_per_day) (40 * usec_per_day) ''u1'')
       = [11, 9, 14]
   \<and> low_hours
        (calculateEnergyPattern ranked_db (40 * usec_per_day) (40 * usec_per_day) ''u1'')
       = [22, 21, 23]"
proof -
  have none: "window_logs empty_db (40 * usec_per_day) ''u1'' = []"
    by (simp add: window_logs_def empty_db_def)
  have some: "window_logs ranked_db (40 * usec_per_day) ''u1'' \<noteq> []"
    by code_simp
  have m: "mean (window_logs ranked_db (40 * usec_per_day) ''u1'') = 41 / 14"
    by code_simp
  have means: "map avg_energy (hourly_energy ranked_db (40 * usec_per_day) ''u1'')
       = [5, 9 / 2, 13 / 3, 4, 2, 3 / 2, 4 / 3, 1]"
    by code_simp
  have hours: "peak_hours
        (calculateEnergyPattern ranked_db (40 * usec_per_day) (40 * usec_per_day) ''u1'')
       = [11, 9, 14]
   \<and> low_hours
        (calculateEnergyPattern ranked_db (40 * usec_per_day) (40 * usec_per_day) ''u1'')
       = [22, 21, 23]"
    by code_simp
  from calculateEnergyPattern_rules [of empty_db "40 * usec_per_day" "''u1''" "40 * usec_per_day"]
    none
  have "calculateEnergyPattern empty_db (40 * usec_per_day) (40 * usec_per_day) ''u1''
     = default_pattern ''u1''"
    by blast
  moreover
  from calculateEnergyPattern_rules [of ranked_db "40 * usec_per_day" "''u1''" "40 * usec_per_day"]
    some m
  have "average_energy
        (calculateEnergyPattern ranked_db (40 * usec_per_day) (40 * usec_per_day) ''u1'')
       = 41 / 14"
    by simp
  ultimately show ?thesis
    using means hours by blast
qed

subsection \<open>Insights\<close>

text \<open>
  C8. The insights are, in the order peak hours, energy mismatch, low average, exactly
  those whose rule holds: peak hours when there is a peak hour, energy mismatch when a
  latest log exists, the current hour is a peak hour and the latest level is below 4, low
  average when the average is below 3; their confidences are 0.85, 0.75 and 0.80. A
  pattern with average 2.5 and no peak hour yields the single insight low average.
\<close>

theorem getEnergyInsights_rules:
  "insights_pattern (getEnergyInsights db now1 now2 currentHour userId)
     = calculateEnergyPattern db now1 now2 userId
   \<and> insights_latest (getEnergyInsights db now1 now2 currentHour userId)
     = getLatestEnergy db userId
   \<and> map insight_type (insights (getEnergyInsights db now1 now2 currentHour userId))
     = filter (rule_holds (calculateEnergyPattern db now1 now2 userId)
                 (getLatestEnergy db userId) currentHour)
         [''peak_hours'', ''energy_mismatch'', ''low_average'']
   \<and> (\<forall>x \<in> set (insights (getEnergyInsights db now1 now2 currentHour userId)).
         confidence x = rule_confidence (insight_type x))
   \<and> (average_energy (calculateEnergyPattern db now1 now2 userId) = 5 / 2
        \<and> peak_hours (calculateEnergyPattern db now1 now2 userId) = []
      \<longrightarrow> map insight_type (insights (getEnergyInsights db now1 now2 currentHour userId))
            = [''low_average''])"
proof -
  let ?p = "calculateEnergyPattern db now1 now2 userId"
  let ?l = "getLatestEnergy db userId"
  let ?r = "getEnergyInsights db now1 now2 currentHour userId"
  have 1: "insights_pattern ?r = ?p" and 2: "insights_latest ?r = ?l"
    by (simp_all add: getEnergyInsights_def Let_def)
  have 3: "map insight_type (insights ?r)
     = filter (rule_holds ?p ?l currentHour) [''peak_hours'', ''energy_mismatch'', ''low_average'']"
    by (simp add: getEnergyInsights_def Let_def rule_holds_def split: option.splits)
  have 4: "\<forall>x \<in> set (insights ?r). confidence x = rule_confidence (insight_type x)"
    by (simp add: getEnergyInsights_def Let_def rule_confidence_def split: option.splits)
  have 5: "map insight_type (insights ?r) = [''low_average'']"
    if "average_energy ?p = 5 / 2" "peak_hours ?p = []"
    using that unfolding 3 by (simp add: rule_holds_def split: option.splits)
  from 1 2 3 4 5 show ?thesis by blast
qed

text \<open>Two logs of levels 2 and 3; and the example logs at nine o'clock.\<close>

theorem getEnergyInsights_rules_witness:
  "map insight_type (insights (getEnergyInsights low_db (40 * usec_per_day) (40 * usec_per_day)
       9 ''u1'')) = [''low_average'']
   \<and> map confidence (insights (getEnergyInsights low_db (40 * usec_per_day) (40 * usec_per_day)
       9 ''u1'')) = [8 / 10]
   \<and> map insight_type (insights (getEnergyInsights logs_db (40 * usec_per_day)
       (40 * usec_per_day) 9 ''u1'')) = [''peak_hours'', ''energy_mismatch'']"
proof -
  let ?r = "getEnergyInsights low_db (40 * usec_per_day) (40 * usec_per_day) 9 ''u1''"
  have p: "average_energy (calculateEnergyPattern low_db (40 * usec_per_day)
             (40 * usec_per_day) ''u1'') = 5 / 2
        \<and> peak_hours (calculateEnergyPattern low_db (40 * usec_per_day)
             (40 * usec_per_day) ''u1'') = []"
    by code_simp
  note th = getEnergyInsights_rules [of low_db "40 * usec_per_day" "40 * usec_per_day" 9 "''u1''"]
  from th p have ty: "map insight_type (insights ?r) = [''low_average'']"
    by blast
  then obtain x where x: "insights ?r = [x]" "insight_type x = ''low_average''"
    by auto
  from th have "\<forall>x \<in> set (insights ?r). confidence x = rule_confidence (insight_type x)"
    by blast
  with x have "map confidence (insights ?r) = [8 / 10]"
    by (simp add: rule_confidence_def)
  moreover have "map insight_type (insights (getEnergyInsights logs_db (40 * usec_per_day)
       (40 * usec_per_day) 9 ''u1'')) = [''peak_hours'', ''energy_mismatch'']"
    by code_simp
  ultimately show ?thesis
    using ty by blast
qed

subsection \<open>Validation of an energy log\<close>

lemma energy_level_schema_domain:
  "energy_level_schema v \<noteq> None \<longleftrightarrow> (\<exists>q. v = Some (JNumber q) \<and> q \<in> {1, 2, 3, 4, 5})"
proof -
  have "isInteger q \<and> 1 \<le> q \<and> q \<le> 5 \<longleftrightarrow> q \<in> {1, 2, 3, 4, 5}" for q :: rat
  proof
    assume a: "isInteger q \<and> 1 \<le> q \<and> q \<le> 5"
    then have q: "q = of_int \<lfloor>q\<rfloor>"
      unfolding isInteger_def by (elim conjE) (rule sym)
    with a have "1 \<le> \<lfloor>q\<rfloor>" "\<lfloor>q\<rfloor> \<le> 5"
      by linarith+
    then have "\<lfloor>q\<rfloor> = 1 \<or> \<lfloor>q\<rfloor> = 2 \<or> \<lfloor>q\<rfloor> = 3 \<or> \<lfloor>q\<rfloor> = 4 \<or> \<lfloor>q\<rfloor> = 5"
      by arith
    then have "of_int \<lfloor>q\<rfloor> \<in> {1, 2, 3, 4, 5 :: rat}"
      by auto
    with q show "q \<in> {1, 2, 3, 4, 5}"
      by simp
  next
    assume "q \<in> {1, 2, 3, 4, 5}"
    then show "isInteger q \<and> 1 \<le> q \<and> q \<le> 5"
      by (auto simp: isInteger_def)
  qed
  then show ?thesis
    by (auto simp: energy_level_schema_def split: option.splits json.splits)
qed

lemma parse_rejects:
  "\<not> energy_level_in_domain b \<Longrightarrow> \<exists>issues. logEnergySchema_parse b = Inl issues"
proof (cases b)
  case (JObject members)
  assume "\<not> energy_level_in_domain b"
  with JObject have "energy_level_schema (map_of members ''energy_level'') = None"
    using energy_level_schema_domain [of "map_of members ''energy_level''"]
    by (auto simp: energy_level_in_domain_def split: option.splits json.splits)
  with JObject show ?thesis
    by (simp add: logEnergySchema_parse_def)
qed (simp_all add: logEnergySchema_parse_def)

text \<open>
  C9. A request whose \<open>energy_level\<close> is not one of the integers 1 to 5 leaves the store
  as it was; coming from an authenticated caller (the only ones the route lets through)
  it is answered 400 "Validation failed". No request answered that way has changed the
  store: validation comes before the insert, which is the handler's only store access.
\<close>

theorem logEnergy_validation:
  "(\<not> energy_level_in_domain (req_body req) \<longrightarrow>
      fst (EnergyController_logEnergy db now new_id req) = db
      \<and> (or_null_string (req_userId req) \<noteq> None \<longrightarrow>
           (\<exists>issues. snd (EnergyController_logEnergy db now new_id req)
                      = Response 400 (ValidationReply ''Validation failed'' issues))))
   \<and> ((\<exists>issues. snd (EnergyController_logEnergy db now new_id req)
                 = Response 400 (ValidationReply ''Validation failed'' issues))
       \<longrightarrow> fst (EnergyController_logEnergy db now new_id req) = db)"
proof -
  have 1: "fst (EnergyController_logEnergy db now new_id req) = db
      \<and> (or_null_string (req_userId req) \<noteq> None \<longrightarrow>
           (\<exists>issues. snd (EnergyController_logEnergy db now new_id req)
                      = Response 400 (ValidationReply ''Validation failed'' issues)))"
    if "\<not> energy_level_in_domain (req_body req)"
  proof -
    from parse_rejects [OF that] obtain issues
      where "logEnergySchema_parse (req_body req) = Inl issues" ..
    then show ?thesis
      by (simp add: EnergyController_logEnergy_def split: option.splits)
  qed
  have 2: "fst (EnergyController_logEnergy db now new_id req) = db"
    if "\<exists>issues. snd (EnergyController_logEnergy db now new_id req)
                 = Response 400 (ValidationReply ''Validation failed'' issues)"
    using that
    by (auto simp: EnergyController_logEnergy_def split: option.splits sum.splits prod.splits)
  from 1 2 show ?thesis by blast
qed

text \<open>The energy level 6, sent by an authenticated user.\<close>

theorem logEnergy_validation_witness:
  "EnergyController_logEnergy logs_db 7 ''new'' request6 =
     (logs_db, Response 400 (ValidationReply ''Validation failed'' [''energy_level'']))"
proof -
  have out: "\<not> energy_level_in_domain (req_body request6)"
    by (simp add: request6_def energy_level_in_domain_def)
  have auth: "or_null_string (req_userId request6) \<noteq> None"
    by (simp add: request6_def or_null_string_def)
  from logEnergy_validation [of request6 logs_db 7 "''new''"] out auth
  have "fst (EnergyController_logEnergy logs_db 7 ''new'' request6) = logs_db"
    by blast
  moreover have "logEnergySchema_parse (req_body request6) = Inl [''energy_level'']"
    by (simp add: request6_def logEnergySchema_parse_def energy_level_schema_def
        mood_tags_schema_def notes_schema_def isInteger_def)
  then have "snd (EnergyController_logEnergy logs_db 7 ''new'' request6)
      = Response 400 (ValidationReply ''Validation failed'' [''energy_level''])"
    using auth by (auto simp: EnergyController_logEnergy_def split: option.splits)
  ultimately show ?thesis
    by (metis prod.collapse)
qed


text \<open>The handler does store a valid log: the same request with level 3.\<close>

lemma logEnergy_accepts_example:
  "EnergyController_logEnergy empty_db 7 ''new''
     (request6\<lparr>req_body := JObject [(''energy_level'', JNumber 3)]\<rparr>) =
   (empty_db\<lparr>energy_logs :=
       [\<lparr>log_id = ''new'', log_user_id = ''auth0|u1'', energy_level = 3, mood_tags = None,
         log_notes = None, logged_at = 7, predicted_at = None\<rparr>]\<rparr>,
    Response 201 (EnergyLoggedReply ''Energy logged successfully''
       \<lparr>log_id = ''new'', log_user_id = ''auth0|u1'', energy_level = 3, mood_tags = None,
         log_notes = None, logged_at = 7, predicted_at = None\<rparr>))"
  by (simp add: EnergyController_logEnergy_def request6_def or_null_string_def
      logEnergySchema_parse_def energy_level_schema_def mood_tags_schema_def notes_schema_def
      isInteger_def logEnergy_def log_checks_def empty_db_def Let_def)

subsection \<open>The schema's constraints are invariants\<close>

text \<open>
  The theorems on completion assume that the store satisfies the schema. The empty
  store does, and every operation of the task model keeps it so.
\<close>

lemma empty_db_schema: "schema_ok empty_db"
  by (simp add: schema_ok_def empty_db_def)

lemma create_keeps_schema:
  "schema_ok db \<Longrightarrow> schema_ok (fst (create db now new_id data))"
  by (auto simp: schema_ok_def create_def Let_def)

lemma update_tasks_keeps_schema:
  assumes "schema_ok db" and "\<And>t. task_id (f t) = task_id t"
    and "update_tasks db now cond f = Some (db', returning)"
  shows "schema_ok db'"
proof -
  let ?g = "\<lambda>t. if cond t then (f t)\<lparr>updated_at := now\<rparr> else t"
  from assms(3) have db': "tasks db' = map ?g (tasks db)"
    and checked: "list_all row_accepted
                    (map (\<lambda>t. (f t)\<lparr>updated_at := now\<rparr>) (filter cond (tasks db)))"
    by (auto simp: update_tasks_def Let_def split: if_splits)
  have "map task_id (map ?g (tasks db)) = map task_id (tasks db)"
    by (simp add: assms(2))
  with assms(1) have "distinct (map task_id (tasks db'))"
    by (simp add: db' schema_ok_def del: map_map)
  moreover have "list_all row_accepted (tasks db')"
    using assms(1) checked by (auto simp: db' schema_ok_def list_all_iff)
  ultimately show ?thesis
    by (simp add: schema_ok_def)
qed

lemma update_keeps_schema:
  assumes "schema_ok db"
  shows "schema_ok (fst (update db now i userId data))"
proof (cases "update_fields data = []")
  case True
  with assms show ?thesis
    by (simp add: update_def)
next
  case False
  show ?thesis
  proof (cases "update_tasks db now (\<lambda>t. task_id t = i \<and> user_id t = userId)
                  (\<lambda>t. fold assign (update_fields data) t)")
    case None
    with False assms show ?thesis
      by (simp add: update_def)
  next
    case (Some r)
    then obtain db' returning where r: "r = (db', returning)"
      by (cases r)
    from update_tasks_keeps_schema [OF assms _ Some [unfolded r]]
    have "schema_ok db'"
      by (simp add: task_id_fold_assign)
    with False Some r show ?thesis
      by (simp add: update_def)
  qed
qed

lemma complete_keeps_schema:
  assumes "schema_ok db"
  shows "schema_ok (fst (complete_task db now i userId actualDuration currentEnergyLevel))"
proof (cases "findById db i userId")
  case None
  with assms show ?thesis
    by (simp add: complete_task_def)
next
  case (Some task)
  let ?f = "\<lambda>t. t\<lparr>status := ''completed'', completed_at := Some now,
                  actual_duration := or_null_int actualDuration\<rparr>"
  show ?thesis
  proof (cases "update_tasks db now (\<lambda>t. task_id t = i \<and> user_id t = userId) ?f")
    case None
    with Some assms show ?thesis
      by (simp add: complete_task_def Let_def)
  next
    case (Some r)
    then obtain db' returning where r: "r = (db', returning)"
      by (cases r)
    from update_tasks_keeps_schema [OF assms _ Some [unfolded r]]
    have "schema_ok db'"
      by simp
    with \<open>findById db i userId = Some task\<close> Some r show ?thesis
      by (simp add: complete_task_def Let_def)
  qed
qed

lemma delete_keeps_schema:
  "schema_ok db \<Longrightarrow> schema_ok (fst (delete db i userId))"
  by (auto simp: schema_ok_def delete_def distinct_map_filter list_all_iff)


end
